theory Spec2Isabelle
  imports Main "HOL-Library.Char_ord"
begin

section \<open>Go values used by the generator\<close>

text \<open>
  Go strings are byte sequences: a \<^typ>\<open>string\<close> here is the list of the bytes of the Go
  string (UTF-8 for text). Errors are values. \<open>Errorf m\<close> is an error made by
  \<^verbatim>\<open>fmt.Errorf\<close> whose formatted message is \<open>m\<close>; \<open>Wrapf p e\<close> is
  \<^verbatim>\<open>fmt.Errorf("p: %w", e)\<close>, the error \<open>e\<close> wrapped under the prefix \<open>p\<close>;
  \<open>PathError op path reason\<close> is the \<^verbatim>\<open>*fs.PathError\<close> of package os;
  \<open>ParseError\<close> and \<open>ExecError\<close> are the errors of package text/template at parse and
  at execution time (their text is descriptive only); \<open>RelError\<close> is the error of
  \<^verbatim>\<open>filepath.Rel\<close>; \<open>Panic\<close> is a run-time panic. \<open>Unmodelled a\<close> is no error of the
  program: it marks a template action \<open>a\<close> that the model of text/template given below
  does not cover.
\<close>

datatype error =
    Errorf string
  | Wrapf string error
  | PathError string string string
  | ParseError string
  | ExecError string
  | RelError string
  | Panic string
  | Unmodelled string

subsection \<open>Package strings\<close>

definition HasPrefix :: "string \<Rightarrow> string \<Rightarrow> bool" where
  "HasPrefix s p = (take (length p) s = p)"

definition HasSuffix :: "string \<Rightarrow> string \<Rightarrow> bool" where
  "HasSuffix s p = (length p \<le> length s \<and> drop (length s - length p) s = p)"

definition TrimPrefix :: "string \<Rightarrow> string \<Rightarrow> string" where
  "TrimPrefix s p = (if HasPrefix s p then drop (length p) s else s)"

definition TrimSuffix :: "string \<Rightarrow> string \<Rightarrow> string" where
  "TrimSuffix s p = (if HasSuffix s p then take (length s - length p) s else s)"

text \<open>\<^verbatim>\<open>strings.Split(s, sep)\<close> for a separator of one byte: never the empty list.\<close>

fun Split :: "string \<Rightarrow> char \<Rightarrow> string list" where
  "Split [] c = [[]]"
| "Split (x # xs) c =
     (if x = c then [] # Split xs c
      else (case Split xs c of [] \<Rightarrow> [[x]] | y # ys \<Rightarrow> (x # y) # ys))"

text \<open>\<^verbatim>\<open>strings.Join(elems, sep)\<close>.\<close>

fun Join :: "string list \<Rightarrow> string \<Rightarrow> string" where
  "Join [] sep = []"
| "Join [x] sep = x"
| "Join (x # y # ys) sep = x @ sep @ Join (y # ys) sep"

text \<open>
  \<^verbatim>\<open>unicode.IsSpace\<close> on the rune that starts a string: \<open>spaceWidth s\<close> is the number
  of bytes of the white-space rune that \<open>s\<close> starts with, and 0 when \<open>s\<close> starts with no
  white-space rune. The white-space runes are U+0009 to U+000D, U+0020, U+0085, U+00A0,
  U+1680, U+2000 to U+200A, U+2028, U+2029, U+202F, U+205F and U+3000, in UTF-8.
\<close>

definition asciiSpace :: "char \<Rightarrow> bool" where
  "asciiSpace c = (c = CHR 0x09 \<or> c = CHR 0x0A \<or> c = CHR 0x0B \<or> c = CHR 0x0C
                   \<or> c = CHR 0x0D \<or> c = CHR 0x20)"

definition spaceRunes :: "string list" where
  "spaceRunes =
     [[CHR 0xC2, CHR 0x85], [CHR 0xC2, CHR 0xA0], [CHR 0xE1, CHR 0x9A, CHR 0x80],
      [CHR 0xE2, CHR 0x80, CHR 0x80], [CHR 0xE2, CHR 0x80, CHR 0x81],
      [CHR 0xE2, CHR 0x80, CHR 0x82], [CHR 0xE2, CHR 0x80, CHR 0x83],
      [CHR 0xE2, CHR 0x80, CHR 0x84], [CHR 0xE2, CHR 0x80, CHR 0x85],
      [CHR 0xE2, CHR 0x80, CHR 0x86], [CHR 0xE2, CHR 0x80, CHR 0x87],
      [CHR 0xE2, CHR 0x80, CHR 0x88], [CHR 0xE2, CHR 0x80, CHR 0x89],
      [CHR 0xE2, CHR 0x80, CHR 0x8A], [CHR 0xE2, CHR 0x80, CHR 0xA8],
      [CHR 0xE2, CHR 0x80, CHR 0xA9], [CHR 0xE2, CHR 0x80, CHR 0xAF],
      [CHR 0xE2, CHR 0x81, CHR 0x9F], [CHR 0xE3, CHR 0x80, CHR 0x80]]"

definition spaceWidth :: "string \<Rightarrow> nat" where
  "spaceWidth s =
     (case s of [] \<Rightarrow> 0
      | c # _ \<Rightarrow> if asciiSpace c then 1
                 else (case filter (\<lambda>r. take (length r) s = r) spaceRunes of
                         [] \<Rightarrow> 0 | r # _ \<Rightarrow> length r))"

text \<open>The same from the end of the string (\<^verbatim>\<open>utf8.DecodeLastRuneInString\<close>).\<close>

definition spaceWidthEnd :: "string \<Rightarrow> nat" where
  "spaceWidthEnd s =
     (case rev s of [] \<Rightarrow> 0
      | c # _ \<Rightarrow> if asciiSpace c then 1
                 else (case filter (\<lambda>r. length r \<le> length s \<and> drop (length s - length r) s = r)
                              spaceRunes of
                         [] \<Rightarrow> 0 | r # _ \<Rightarrow> length r))"

function TrimLeftSpace :: "string \<Rightarrow> string" where
  "TrimLeftSpace s =
     (if spaceWidth s = 0 then s else TrimLeftSpace (drop (spaceWidth s) s))"
  by pat_completeness auto
termination
  by (relation "measure length") (auto simp: spaceWidth_def split: list.splits)

function TrimRightSpace :: "string \<Rightarrow> string" where
  "TrimRightSpace s =
     (if spaceWidthEnd s = 0 then s else TrimRightSpace (take (length s - spaceWidthEnd s) s))"
  by pat_completeness auto
termination
  by (relation "measure length") (auto simp: spaceWidthEnd_def split: list.splits)

declare TrimLeftSpace.simps [simp del] TrimRightSpace.simps [simp del]

text \<open>\<^verbatim>\<open>strings.TrimSpace\<close>: leading white space removed, then trailing white space.\<close>

definition TrimSpace :: "string \<Rightarrow> string" where
  "TrimSpace s = TrimRightSpace (TrimLeftSpace s)"

subsection \<open>Package path/filepath (Unix)\<close>

text \<open>
  \<open>cleanParts rooted cs\<close> is the lexical processing of \<^verbatim>\<open>filepath.Clean\<close> on the elements
  \<open>cs\<close> of a path: empty elements and \<open>.\<close> are dropped, \<open>..\<close> removes the element before
  it, is dropped at the root and is kept at the start of a relative path.
\<close>

definition cleanStep :: "bool \<Rightarrow> string \<Rightarrow> string list \<Rightarrow> string list" where
  "cleanStep rooted c st =
     (if c = [] \<or> c = ''.'' then st
      else if c = ''..'' then
        (case st of
           [] \<Rightarrow> if rooted then [] else [''..'']
         | t # ts \<Rightarrow> if t = ''..'' then c # st else ts)
      else c # st)"

definition cleanParts :: "bool \<Rightarrow> string list \<Rightarrow> string list" where
  "cleanParts rooted cs = rev (fold (cleanStep rooted) cs [])"

definition isRooted :: "string \<Rightarrow> bool" where
  "isRooted path = (case path of [] \<Rightarrow> False | c # _ \<Rightarrow> c = CHR ''/'')"

definition Clean :: "string \<Rightarrow> string" where
  "Clean path =
     (let body = Join (cleanParts (isRooted path) (Split path CHR ''/'')) ''/''
      in if isRooted path then ''/'' @ body else if body = [] then ''.'' else body)"

text \<open>\<^verbatim>\<open>filepath.Join\<close>: the first empty elements are ignored, the rest is joined and cleaned.\<close>

definition filepath_Join :: "string list \<Rightarrow> string" where
  "filepath_Join elem =
     (case dropWhile (\<lambda>e. e = []) elem of [] \<Rightarrow> [] | es \<Rightarrow> Clean (Join es ''/''))"

text \<open>\<^verbatim>\<open>filepath.Dir\<close>: all but the last element of the path, cleaned.\<close>

definition filepath_Dir :: "string \<Rightarrow> string" where
  "filepath_Dir path = Clean (rev (dropWhile (\<lambda>c. c \<noteq> CHR ''/'') (rev path)))"

text \<open>
  \<^verbatim>\<open>filepath.Rel\<close>: both paths are cleaned; equal paths give \<open>.\<close>; a rooted and an
  unrooted path cannot be related; otherwise the common leading elements are removed and
  each element left of the base becomes \<open>..\<close>.
\<close>

definition relParts :: "string \<Rightarrow> string list" where
  "relParts p = (if p = [] then [] else if p = ''/'' then [[]] else Split p CHR ''/'')"

fun dropCommon :: "string list \<Rightarrow> string list \<Rightarrow> string list \<times> string list" where
  "dropCommon (b # bs) (t # ts) = (if b = t then dropCommon bs ts else (b # bs, t # ts))"
| "dropCommon bs ts = (bs, ts)"

definition filepath_Rel :: "string \<Rightarrow> string \<Rightarrow> error + string" where
  "filepath_Rel basepath targpath =
     (let base = Clean basepath; targ = Clean targpath
      in if targ = base then Inr ''.''
         else
           (let base' = (if base = ''.'' then [] else base)
            in if isRooted base' \<noteq> isRooted targ
               then Inl (RelError (''Rel: can't make '' @ targpath @ '' relative to '' @ basepath))
               else
                 (case dropCommon (relParts base') (relParts targ) of
                    (bs, ts) \<Rightarrow>
                      if (case bs of [] \<Rightarrow> False | b # _ \<Rightarrow> b = ''..'')
                      then Inl (RelError (''Rel: can't make '' @ targpath @ '' relative to ''
                                           @ basepath))
                      else if bs \<noteq> []
                      then Inr (Join (map (\<lambda>_. ''..'') bs @ (if ts = [] then [] else [Join ts ''/'']))
                                  ''/'')
                      else Inr (Join ts ''/''))))"

section \<open>The data model of package modules\<close>

text \<open>
  The values stored in \<^verbatim>\<open>TemplateData map[string]interface{}\<close> are strings and booleans.
\<close>

datatype tvalue = VString string | VBool bool

record InitOptions =
  ProjectName :: string
  ModulePath :: string
  Router :: string
  Database :: string
  OpenAPI :: string
  SpecPath :: string
  Docker :: bool
  Migrations :: string
  Force :: bool

record Context =
  ProjectPath :: string
  Options :: InitOptions
  TemplateData :: "string \<rightharpoonup> tvalue"

section \<open>The world the generator runs in\<close>

text \<open>
  The destination file system maps a resolved path (its elements, as \<open>resolve\<close> gives
  them) to a directory or to a file with its bytes. Permission bits, symbolic links and
  concurrent writers are not modelled. The world is the file system (\<open>disk\<close>), what has
  been printed on standard output (\<open>stdout\<close>), the external commands run so far with their
  working directories (\<open>procs\<close>), and the one \<^verbatim>\<open>*modules.Context\<close> object of the run
  (\<open>heap\<close>; \<open>None\<close> before it is allocated), which every module receives by pointer.
\<close>

datatype node = Dir | File string

type_synonym filesystem = "string list \<Rightarrow> node option"

record world =
  disk :: filesystem
  stdout :: "string list"
  procs :: "(string list \<times> string) list"
  heap :: "Context option"

definition resolve :: "string \<Rightarrow> string list" where
  "resolve name =
     (if isRooted name then [''/''] else []) @ cleanParts (isRooted name) (Split name CHR ''/'')"

text \<open>A name whose last element is empty, \<open>.\<close> or \<open>..\<close> can only denote a directory.\<close>

definition denotesDir :: "string \<Rightarrow> bool" where
  "denotesDir name = (last (Split name CHR ''/'') \<in> {[], ''.'', ''..''})"

definition isDir :: "filesystem \<Rightarrow> string list \<Rightarrow> bool" where
  "isDir fs p = (p = [] \<or> p = [''/''] \<or> fs p = Some Dir)"

text \<open>\<^verbatim>\<open>fmt.Printf\<close> with its text already formatted, and \<^verbatim>\<open>fmt.Println\<close>.\<close>

definition Printf :: "string \<Rightarrow> world \<Rightarrow> world" where
  "Printf s w = w\<lparr>stdout := stdout w @ [s]\<rparr>"

definition Println :: "string \<Rightarrow> world \<Rightarrow> world" where
  "Println s w = Printf (s @ [CHR 0x0A]) w"

subsection \<open>Package os\<close>

text \<open>
  \<^verbatim>\<open>os.MkdirAll\<close>: a path that is a directory already is no error and nothing is
  done; a path that is a file fails the call; otherwise every missing directory on the
  way is created (\<open>mkdirs\<close>), and an element that is a file fails the call.
\<close>

fun mkdirs :: "string \<Rightarrow> string list \<Rightarrow> string list \<Rightarrow> filesystem \<Rightarrow> error option \<times> filesystem"
  where
  "mkdirs name pre [] fs = (None, fs)"
| "mkdirs name pre (c # cs) fs =
     (case fs (pre @ [c]) of
        Some (File _) \<Rightarrow> (Some (PathError ''mkdir'' name ''not a directory''), fs)
      | Some Dir \<Rightarrow> mkdirs name (pre @ [c]) cs fs
      | None \<Rightarrow> mkdirs name (pre @ [c]) cs (fs(pre @ [c] \<mapsto> Dir)))"

definition os_MkdirAll :: "string \<Rightarrow> world \<Rightarrow> error option \<times> world" where
  "os_MkdirAll path w =
     (if path = [] then (Some (PathError ''mkdir'' path ''no such file or directory''), w)
      else
        (case disk w (resolve path) of
           Some Dir \<Rightarrow> (None, w)
         | Some (File _) \<Rightarrow> (Some (PathError ''mkdir'' path ''not a directory''), w)
         | None \<Rightarrow>
             (case mkdirs path [] (resolve path) (disk w) of
                (e, fs) \<Rightarrow> (e, w\<lparr>disk := fs\<rparr>))))"

text \<open>
  \<^verbatim>\<open>os.WriteFile\<close>: the file is created or truncated and holds exactly the data; the
  call fails when the name denotes a directory or when its parent is not a directory.
\<close>

definition os_WriteFile :: "string \<Rightarrow> string \<Rightarrow> world \<Rightarrow> error option \<times> world" where
  "os_WriteFile name data w =
     (let p = resolve name
      in if denotesDir name \<or> p = [] \<or> p = [''/''] \<or> disk w p = Some Dir
         then (Some (PathError ''open'' name ''is a directory''), w)
         else if \<not> isDir (disk w) (butlast p)
         then (Some (PathError ''open'' name ''no such file or directory''), w)
         else (None, w\<lparr>disk := (disk w)(p \<mapsto> File data)\<rparr>))"

text \<open>
  \<^verbatim>\<open>os.RemoveAll\<close>: the path and everything below it is removed; a missing path and the
  empty path are no error; a path ending in \<open>.\<close> is refused.
\<close>

definition os_RemoveAll :: "string \<Rightarrow> world \<Rightarrow> error option \<times> world" where
  "os_RemoveAll path w =
     (if path = [] then (None, w)
      else if path = ''.'' \<or> HasSuffix path ''/.''
      then (Some (PathError ''RemoveAll'' path ''invalid argument''), w)
      else (None, w\<lparr>disk := (\<lambda>q. if take (length (resolve path)) q = resolve path then None
                                   else disk w q)\<rparr>))"

definition os_ReadFile :: "string \<Rightarrow> world \<Rightarrow> error + string" where
  "os_ReadFile name w =
     (case disk w (resolve name) of
        Some (File c) \<Rightarrow>
          if denotesDir name then Inl (PathError ''open'' name ''not a directory'') else Inr c
      | Some Dir \<Rightarrow> Inl (PathError ''read'' name ''is a directory'')
      | None \<Rightarrow>
          if isDir (disk w) (resolve name) then Inl (PathError ''read'' name ''is a directory'')
          else Inl (PathError ''open'' name ''no such file or directory''))"

text \<open>\<^verbatim>\<open>os.Stat\<close> returns no error exactly when the name exists.\<close>

definition os_Stat_ok :: "string \<Rightarrow> world \<Rightarrow> bool" where
  "os_Stat_ok name w =
     (case disk w (resolve name) of
        Some (File _) \<Rightarrow> \<not> denotesDir name
      | Some Dir \<Rightarrow> True
      | None \<Rightarrow> name \<noteq> [] \<and> isDir (disk w) (resolve name))"

section \<open>What the generator is given\<close>

text \<open>
  The embedded template store \<^verbatim>\<open>templates.FS\<close> is a read-only tree: a file with its
  bytes, or a directory with its entries by name, listed in the order in which
  \<^verbatim>\<open>ReadDir\<close> returns them (sorted by name).
\<close>

datatype embedded = EFile string | EDir "(string \<times> embedded) list"

text \<open>
  The environment of a run: package text/template (\<open>template_Parse\<close> for
  \<^verbatim>\<open>template.New("template").Parse\<close>, \<open>template_Execute\<close> for \<^verbatim>\<open>Execute\<close> into a
  fresh buffer; both read nothing but their arguments), the embedded store, and the
  external commands: \<open>exec_Command argv dir fs\<close> gives the combined output of the command
  run in \<open>dir\<close>, whether it exited without error, and the file system it leaves.
\<close>

record 't env =
  template_Parse :: "string \<Rightarrow> error + 't"
  template_Execute :: "'t \<Rightarrow> (string \<rightharpoonup> tvalue) \<Rightarrow> error + string"
  templatesFS :: embedded
  exec_Command :: "string list \<Rightarrow> string \<Rightarrow> filesystem \<Rightarrow> (string \<times> bool) \<times> filesystem"

subsection \<open>Package embed and fs.WalkDir\<close>

fun lookupNode :: "embedded \<Rightarrow> string list \<Rightarrow> embedded option" where
  "lookupNode n [] = Some n"
| "lookupNode n (x # xs) =
     (case n of
        EFile _ \<Rightarrow> None
      | EDir cs \<Rightarrow> (case map_of cs x of None \<Rightarrow> None | Some m \<Rightarrow> lookupNode m xs))"

definition fs_Stat :: "embedded \<Rightarrow> string \<Rightarrow> embedded option" where
  "fs_Stat root name = (if name = ''.'' then Some root else lookupNode root (Split name CHR ''/''))"

definition fs_ReadFile :: "embedded \<Rightarrow> string \<Rightarrow> error + string" where
  "fs_ReadFile root name =
     (case fs_Stat root name of
        None \<Rightarrow> Inl (PathError ''open'' name ''file does not exist'')
      | Some (EDir _) \<Rightarrow> Inl (PathError ''read'' name ''is a directory'')
      | Some (EFile c) \<Rightarrow> Inr c)"

text \<open>
  The entries \<^verbatim>\<open>fs.WalkDir\<close> visits below and including \<open>path\<close>, in its order: a
  directory before its entries, the entries in the order of the directory; the name of an
  entry is \<^verbatim>\<open>path.Join(dir, name)\<close>.
\<close>

fun walk :: "string \<Rightarrow> embedded \<Rightarrow> (string \<times> embedded) list"
  and walkEntries :: "string \<Rightarrow> (string \<times> embedded) list \<Rightarrow> (string \<times> embedded) list" where
  "walk path (EFile c) = [(path, EFile c)]"
| "walk path (EDir cs) = (path, EDir cs) # walkEntries path cs"
| "walkEntries path [] = []"
| "walkEntries path ((name, n) # cs) = walk (filepath_Join [path, name]) n @ walkEntries path cs"

text \<open>
  \<^verbatim>\<open>fs.WalkDir\<close> with a function that never asks to skip: the function is called on
  each entry in turn, and the first error ends the walk and is returned. A root that does
  not exist is reported to the function, which returns that error at once.
\<close>

fun walkLoop :: "(string \<times> embedded \<Rightarrow> world \<Rightarrow> error option \<times> world)
                  \<Rightarrow> (string \<times> embedded) list \<Rightarrow> world \<Rightarrow> error option \<times> world" where
  "walkLoop fn [] w = (None, w)"
| "walkLoop fn (x # xs) w =
     (case fn x w of (Some err, w') \<Rightarrow> (Some err, w') | (None, w') \<Rightarrow> walkLoop fn xs w')"

definition WalkDir :: "embedded \<Rightarrow> string
                        \<Rightarrow> (string \<times> embedded \<Rightarrow> world \<Rightarrow> error option \<times> world)
                        \<Rightarrow> world \<Rightarrow> error option \<times> world" where
  "WalkDir fsys root fn w =
     (case fs_Stat fsys root of
        None \<Rightarrow> (Some (PathError ''stat'' root ''file does not exist''), w)
      | Some n \<Rightarrow> walkLoop fn (walk root n) w)"

subsection \<open>Package os/exec\<close>

definition CombinedOutput :: "'t env \<Rightarrow> string list \<Rightarrow> string \<Rightarrow> world \<Rightarrow> (string \<times> bool) \<times> world"
  where
  "CombinedOutput E argv dir w =
     (case exec_Command E argv dir (disk w) of
        (r, fs) \<Rightarrow> (r, w\<lparr>disk := fs, procs := procs w @ [(argv, dir)]\<rparr>))"

section \<open>Package modules\<close>

subsection \<open>The renderer and the overlay applier of the modules\<close>

text \<open>\<^verbatim>\<open>renderTemplate\<close> of package modules.\<close>

definition renderTemplate :: "'t env \<Rightarrow> string \<Rightarrow> (string \<rightharpoonup> tvalue) \<Rightarrow> world
                               \<Rightarrow> (error + string) \<times> world" where
  "renderTemplate E content data w =
     (case template_Parse E content of
        Inl err \<Rightarrow> (Inl err, w)
      | Inr tmpl \<Rightarrow>
          (case template_Execute E tmpl data of
             Inl err \<Rightarrow> (Inl err, w)
           | Inr buf \<Rightarrow> (Inr buf, w)))"

text \<open>\<^verbatim>\<open>WriteFile\<close> of package modules.\<close>

definition WriteFile :: "string \<Rightarrow> string \<Rightarrow> world \<Rightarrow> error option \<times> world" where
  "WriteFile path content w =
     (case os_MkdirAll (filepath_Dir path) w of
        (Some err, w') \<Rightarrow> (Some err, w')
      | (None, w') \<Rightarrow> os_WriteFile path content w')"

text \<open>The function \<^verbatim>\<open>ApplyModuleTemplate\<close> hands to \<^verbatim>\<open>fs.WalkDir\<close>.\<close>

definition ApplyModuleTemplate_fn ::
  "'t env \<Rightarrow> string \<Rightarrow> string \<Rightarrow> (string \<rightharpoonup> tvalue) \<Rightarrow> string \<times> embedded \<Rightarrow> world
     \<Rightarrow> error option \<times> world" where
  "ApplyModuleTemplate_fn E templatePath destPath data = (\<lambda>(path, d) w.
     if path = templatePath then (None, w)
     else
       (case filepath_Rel templatePath path of
          Inl err \<Rightarrow> (Some err, w)
        | Inr relPath \<Rightarrow>
            (let destFilePath = filepath_Join [destPath, relPath]
             in case d of
                  EDir _ \<Rightarrow> os_MkdirAll destFilePath w
                | EFile _ \<Rightarrow>
                    (case fs_ReadFile (templatesFS E) path of
                       Inl err \<Rightarrow> (Some err, w)
                     | Inr content \<Rightarrow>
                         if HasSuffix path ''.tmpl''
                         then
                           (case renderTemplate E content data w of
                              (Inl err, w1) \<Rightarrow>
                                (Some (Wrapf (''failed to render template '' @ path) err), w1)
                            | (Inr rendered, w1) \<Rightarrow>
                                (case os_MkdirAll
                                        (filepath_Dir (TrimSuffix destFilePath ''.tmpl'')) w1 of
                                   (Some err, w2) \<Rightarrow> (Some err, w2)
                                 | (None, w2) \<Rightarrow>
                                     os_WriteFile (TrimSuffix destFilePath ''.tmpl'') rendered w2))
                         else
                           (case os_MkdirAll (filepath_Dir destFilePath) w of
                              (Some err, w1) \<Rightarrow> (Some err, w1)
                            | (None, w1) \<Rightarrow> os_WriteFile destFilePath content w1)))))"

definition ApplyModuleTemplate ::
  "'t env \<Rightarrow> string \<Rightarrow> string \<Rightarrow> (string \<rightharpoonup> tvalue) \<Rightarrow> world \<Rightarrow> error option \<times> world"
  where
  "ApplyModuleTemplate E templatePath destPath data w =
     WalkDir (templatesFS E) templatePath
       (ApplyModuleTemplate_fn E templatePath destPath data) w"

subsection \<open>The modules\<close>

text \<open>
  The implementations of the interface \<^verbatim>\<open>Module\<close>. \<open>Apply\<close> receives the pointer to
  the Context of the run, which is the object in \<open>heap\<close>; a nil pointer panics.
\<close>

datatype Module =
  PostgresModule | MongoModule | OpenAPIGenModule | OpenAPIManualModule | DockerModule


definition initialMigration :: string where
  "initialMigration =
     ''-- +goose Up\<newline>'' @
     ''-- +goose StatementBegin\<newline>'' @
     ''CREATE TABLE IF NOT EXISTS users (\<newline>'' @
     ''    id SERIAL PRIMARY KEY,\<newline>'' @
     ''    email VARCHAR(255) UNIQUE NOT NULL,\<newline>'' @
     ''    created_at TIMESTAMP DEFAULT CURRENT_TIMESTAMP,\<newline>'' @
     ''    updated_at TIMESTAMP DEFAULT CURRENT_TIMESTAMP\<newline>'' @
     '');\<newline>'' @
     ''-- +goose StatementEnd\<newline>'' @
     ''\<newline>'' @
     ''-- +goose Down\<newline>'' @
     ''-- +goose StatementBegin\<newline>'' @
     ''DROP TABLE IF EXISTS users;\<newline>'' @
     ''-- +goose StatementEnd\<newline>''"

definition PostgresModule_Apply :: "'t env \<Rightarrow> world \<Rightarrow> error option \<times> world" where
  "PostgresModule_Apply E w =
     (case heap w of
        None \<Rightarrow> (Some (Panic ''nil pointer dereference''), w)
      | Some ctx \<Rightarrow>
          (case ApplyModuleTemplate E ''files/db/postgres'' (ProjectPath ctx) (TemplateData ctx) w of
             (Some err, w1) \<Rightarrow> (Some (Wrapf ''failed to apply postgres template'' err), w1)
           | (None, w1) \<Rightarrow>
               if Migrations (Options ctx) = ''goose''
               then
                 (let migrationsDir = filepath_Join [ProjectPath ctx, ''migrations'']
                  in case WriteFile (filepath_Join [migrationsDir, ''.gitkeep'']) [] w1 of
                       (Some err, w2) \<Rightarrow> (Some err, w2)
                     | (None, w2) \<Rightarrow>
                         (case WriteFile (filepath_Join [migrationsDir, ''00001_initial.sql''])
                                 initialMigration w2 of
                            (Some err, w3) \<Rightarrow> (Some err, w3)
                          | (None, w3) \<Rightarrow> (None, w3)))
               else (None, w1)))"

definition MongoModule_Apply :: "'t env \<Rightarrow> world \<Rightarrow> error option \<times> world" where
  "MongoModule_Apply E w =
     (case heap w of
        None \<Rightarrow> (Some (Panic ''nil pointer dereference''), w)
      | Some ctx \<Rightarrow>
          (case ApplyModuleTemplate E ''files/db/mongo'' (ProjectPath ctx) (TemplateData ctx) w of
             (Some err, w1) \<Rightarrow> (Some (Wrapf ''failed to apply mongo template'' err), w1)
           | (None, w1) \<Rightarrow> (None, w1)))"

definition specContent :: "string \<Rightarrow> string" where
  "specContent projectName =
     ''openapi: 3.0.0\<newline>'' @
     ''info:\<newline>'' @
     ''  title: '' @ projectName @ '' API\<newline>'' @
     ''  version: 1.0.0\<newline>'' @
     ''paths:\<newline>'' @
     ''  /health:\<newline>'' @
     ''    get:\<newline>'' @
     ''      summary: Health check\<newline>'' @
     ''      responses:\<newline>'' @
     ''        '' @ [CHR 0x27] @ ''200'' @ [CHR 0x27] @ '':\<newline>'' @
     ''          description: Service is healthy\<newline>'' @
     ''          content:\<newline>'' @
     ''            application/json:\<newline>'' @
     ''              schema:\<newline>'' @
     ''                type: object\<newline>'' @
     ''                properties:\<newline>'' @
     ''                  status:\<newline>'' @
     ''                    type: string\<newline>'' @
     ''  /api/v1/users:\<newline>'' @
     ''    get:\<newline>'' @
     ''      summary: List users\<newline>'' @
     ''      responses:\<newline>'' @
     ''        '' @ [CHR 0x27] @ ''200'' @ [CHR 0x27] @ '':\<newline>'' @
     ''          description: List of users\<newline>'' @
     ''          content:\<newline>'' @
     ''            application/json:\<newline>'' @
     ''              schema:\<newline>'' @
     ''                type: array\<newline>'' @
     ''                items:\<newline>'' @
     ''                  type: object\<newline>'' @
     ''                  properties:\<newline>'' @
     ''                    id:\<newline>'' @
     ''                      type: integer\<newline>'' @
     ''                    email:\<newline>'' @
     ''                      type: string\<newline>''"

definition makefileContent :: string where
  "makefileContent =
     ''.PHONY: generate\<newline>'' @
     ''generate:\<newline>'' @
     [CHR 0x09] @ ''go generate ./...\<newline>'' @
     ''\<newline>'' @
     ''.PHONY: api-gen\<newline>'' @
     ''api-gen:\<newline>'' @
     [CHR 0x09] @ ''oapi-codegen -package generated -generate types,chi-server,spec '' @
       ''api/openapi.yaml > internal/api/generated/api.gen.go\<newline>''"

definition OpenAPIGenModule_Apply :: "'t env \<Rightarrow> world \<Rightarrow> error option \<times> world" where
  "OpenAPIGenModule_Apply E w =
     (case heap w of
        None \<Rightarrow> (Some (Panic ''nil pointer dereference''), w)
      | Some ctx \<Rightarrow>
          (case ApplyModuleTemplate E ''files/openapi/gen'' (ProjectPath ctx) (TemplateData ctx) w of
             (Some err, w1) \<Rightarrow> (Some (Wrapf ''failed to apply openapi gen template'' err), w1)
           | (None, w1) \<Rightarrow>
               (case (if SpecPath (Options ctx) \<noteq> []
                      then WriteFile (filepath_Join [ProjectPath ctx, ''api'', ''openapi.yaml''])
                             (specContent (ProjectName (Options ctx))) w1
                      else (None, w1)) of
                  (Some err, w2) \<Rightarrow> (Some err, w2)
                | (None, w2) \<Rightarrow>
                    (case WriteFile (filepath_Join [ProjectPath ctx, ''Makefile''])
                            makefileContent w2 of
                       (Some err, w3) \<Rightarrow> (Some err, w3)
                     | (None, w3) \<Rightarrow> (None, w3)))))"

definition OpenAPIManualModule_Apply :: "'t env \<Rightarrow> world \<Rightarrow> error option \<times> world" where
  "OpenAPIManualModule_Apply E w =
     (case heap w of
        None \<Rightarrow> (Some (Panic ''nil pointer dereference''), w)
      | Some ctx \<Rightarrow>
          (case ApplyModuleTemplate E ''files/openapi/manual'' (ProjectPath ctx)
                  (TemplateData ctx) w of
             (Some err, w1) \<Rightarrow> (Some (Wrapf ''failed to apply openapi manual template'' err), w1)
           | (None, w1) \<Rightarrow> (None, w1)))"

definition DockerModule_Apply :: "'t env \<Rightarrow> world \<Rightarrow> error option \<times> world" where
  "DockerModule_Apply E w =
     (case heap w of
        None \<Rightarrow> (Some (Panic ''nil pointer dereference''), w)
      | Some ctx \<Rightarrow>
          (case ApplyModuleTemplate E ''files/docker'' (ProjectPath ctx) (TemplateData ctx) w of
             (Some err, w1) \<Rightarrow> (Some (Wrapf ''failed to apply docker template'' err), w1)
           | (None, w1) \<Rightarrow> (None, w1)))"

text \<open>The call \<^verbatim>\<open>mod.Apply(ctx)\<close> through the interface.\<close>

fun Apply :: "'t env \<Rightarrow> Module \<Rightarrow> world \<Rightarrow> error option \<times> world" where
  "Apply E PostgresModule w = PostgresModule_Apply E w"
| "Apply E MongoModule w = MongoModule_Apply E w"
| "Apply E OpenAPIGenModule w = OpenAPIGenModule_Apply E w"
| "Apply E OpenAPIManualModule w = OpenAPIManualModule_Apply E w"
| "Apply E DockerModule w = DockerModule_Apply E w"

subsection \<open>The registry\<close>

type_synonym Registry = "string \<rightharpoonup> (string \<rightharpoonup> Module)"

definition Register :: "Registry \<Rightarrow> string \<Rightarrow> string \<Rightarrow> Module \<Rightarrow> Registry" where
  "Register r category name m =
     r(category \<mapsto> (case r category of None \<Rightarrow> Map.empty | Some mods \<Rightarrow> mods)(name \<mapsto> m))"

definition NewRegistry :: Registry where
  "NewRegistry =
     Register (Register (Register (Register (Register Map.empty
       ''db'' ''postgres'' PostgresModule)
       ''db'' ''mongo'' MongoModule)
       ''openapi'' ''gen'' OpenAPIGenModule)
       ''openapi'' ''manual'' OpenAPIManualModule)
       ''docker'' [] DockerModule"

definition GetModule :: "Registry \<Rightarrow> string \<Rightarrow> string \<Rightarrow> Module option" where
  "GetModule r category name = (case r category of Some mods \<Rightarrow> mods name | None \<Rightarrow> None)"

section \<open>Package engine\<close>

record AddOptions =
  Module :: string
  Type :: string
  Mode :: string
  Spec :: string

record Engine =
  registry :: Registry

definition NewEngine :: Engine where
  "NewEngine = \<lparr>registry = NewRegistry\<rparr>"

text \<open>The bytes of the arrow U+2192 that starts the progress lines.\<close>

definition arrow :: string where
  "arrow = [CHR 0xE2, CHR 0x86, CHR 0x92]"

subsection \<open>Validation\<close>

text \<open>Indexing a \<^verbatim>\<open>map[string]bool\<close>: a missing key reads as \<open>false\<close>.\<close>

definition index :: "(string \<rightharpoonup> bool) \<Rightarrow> string \<Rightarrow> bool" where
  "index m k = (case m k of None \<Rightarrow> False | Some b \<Rightarrow> b)"

definition validateInitOptions :: "Engine \<Rightarrow> InitOptions \<Rightarrow> error option" where
  "validateInitOptions e opts =
     (let validRouters = [''chi'' \<mapsto> True, ''gin'' \<mapsto> True, ''fiber'' \<mapsto> True]
      in if \<not> index validRouters (Router opts)
         then Some (Errorf (''invalid router: '' @ Router opts @ '' (must be chi, gin, or fiber)''))
         else
           (let validDatabases = [''none'' \<mapsto> True, ''postgres'' \<mapsto> True, ''mongo'' \<mapsto> True]
            in if \<not> index validDatabases (Database opts)
               then Some (Errorf (''invalid database: '' @ Database opts
                                   @ '' (must be none, postgres, or mongo)''))
               else
                 (let validOpenAPI = [''none'' \<mapsto> True, ''gen'' \<mapsto> True, ''manual'' \<mapsto> True]
                  in if \<not> index validOpenAPI (OpenAPI opts)
                     then Some (Errorf (''invalid openapi: '' @ OpenAPI opts
                                         @ '' (must be none, gen, or manual)''))
                     else
                       (let validMigrations = [''none'' \<mapsto> True, ''goose'' \<mapsto> True]
                        in if \<not> index validMigrations (Migrations opts)
                           then Some (Errorf (''invalid migrations: '' @ Migrations opts
                                               @ '' (must be none or goose)''))
                           else None))))"

subsection \<open>The renderer and the overlay applier of the engine\<close>

text \<open>\<^verbatim>\<open>Engine.renderTemplate\<close>.\<close>

definition Engine_renderTemplate :: "'t env \<Rightarrow> Engine \<Rightarrow> string \<Rightarrow> (string \<rightharpoonup> tvalue) \<Rightarrow> world
                                      \<Rightarrow> (error + string) \<times> world" where
  "Engine_renderTemplate E e content data w =
     (case template_Parse E content of
        Inl err \<Rightarrow> (Inl err, w)
      | Inr tmpl \<Rightarrow>
          (case template_Execute E tmpl data of
             Inl err \<Rightarrow> (Inl err, w)
           | Inr buf \<Rightarrow> (Inr buf, w)))"

text \<open>The function \<^verbatim>\<open>Engine.applyTemplate\<close> hands to \<^verbatim>\<open>fs.WalkDir\<close>.\<close>

definition applyTemplate_fn ::
  "'t env \<Rightarrow> Engine \<Rightarrow> string \<Rightarrow> string \<Rightarrow> (string \<rightharpoonup> tvalue) \<Rightarrow> string \<times> embedded \<Rightarrow> world
     \<Rightarrow> error option \<times> world" where
  "applyTemplate_fn E e templatePath destPath data = (\<lambda>(path, d) w.
     if path = templatePath then (None, w)
     else
       (case filepath_Rel templatePath path of
          Inl err \<Rightarrow> (Some err, w)
        | Inr relPath \<Rightarrow>
            (let destFilePath = filepath_Join [destPath, relPath]
             in case d of
                  EDir _ \<Rightarrow> os_MkdirAll destFilePath w
                | EFile _ \<Rightarrow>
                    (case fs_ReadFile (templatesFS E) path of
                       Inl err \<Rightarrow> (Some err, w)
                     | Inr content \<Rightarrow>
                         if HasSuffix path ''.tmpl''
                         then
                           (case Engine_renderTemplate E e content data w of
                              (Inl err, w1) \<Rightarrow>
                                (Some (Wrapf (''failed to render template '' @ path) err), w1)
                            | (Inr rendered, w1) \<Rightarrow>
                                (case os_MkdirAll
                                        (filepath_Dir (TrimSuffix destFilePath ''.tmpl'')) w1 of
                                   (Some err, w2) \<Rightarrow> (Some err, w2)
                                 | (None, w2) \<Rightarrow>
                                     os_WriteFile (TrimSuffix destFilePath ''.tmpl'') rendered w2))
                         else
                           (case os_MkdirAll (filepath_Dir destFilePath) w of
                              (Some err, w1) \<Rightarrow> (Some err, w1)
                            | (None, w1) \<Rightarrow> os_WriteFile destFilePath content w1)))))"

definition applyTemplate ::
  "'t env \<Rightarrow> Engine \<Rightarrow> string \<Rightarrow> string \<Rightarrow> (string \<rightharpoonup> tvalue) \<Rightarrow> world
     \<Rightarrow> error option \<times> world" where
  "applyTemplate E e templatePath destPath data w =
     WalkDir (templatesFS E) templatePath (applyTemplate_fn E e templatePath destPath data) w"

subsection \<open>Post-generation steps\<close>

definition runPostSteps :: "'t env \<Rightarrow> Engine \<Rightarrow> string \<Rightarrow> InitOptions \<Rightarrow> world \<Rightarrow> error option \<times> world"
  where
  "runPostSteps E e projectPath opts w =
     (case CombinedOutput E [''go'', ''mod'', ''init'', ModulePath opts] projectPath w of
        ((output, ok), w1) \<Rightarrow>
          if \<not> ok then (Some (Errorf (''go mod init failed: '' @ output)), w1)
          else
            (case CombinedOutput E [''go'', ''mod'', ''tidy''] projectPath w1 of
               ((output, ok), w2) \<Rightarrow>
                 if \<not> ok then (Some (Errorf (''go mod tidy failed: '' @ output)), w2)
                 else
                   (case CombinedOutput E [''go'', ''fmt'', ''./...''] projectPath w2 of
                      (_, w3) \<Rightarrow> (None, w3))))"

subsection \<open>InitProject\<close>

text \<open>
  The blocks of \<^verbatim>\<open>Engine.InitProject\<close>, in the order of the source: creating or
  cleaning the project directory, then, after the Context is allocated and the base
  template applied, the database, OpenAPI and Docker modules.
\<close>

definition InitProject_directory :: "string \<Rightarrow> InitOptions \<Rightarrow> world \<Rightarrow> error option \<times> world" where
  "InitProject_directory projectPath opts w =
     (case (if Force opts
            then (case os_RemoveAll projectPath w of
                    (Some err, w1) \<Rightarrow> (Some (Wrapf ''failed to remove existing directory'' err), w1)
                  | (None, w1) \<Rightarrow> (None, w1))
            else (None, w)) of
        (Some err, w1) \<Rightarrow> (Some err, w1)
      | (None, w1) \<Rightarrow>
          (case os_MkdirAll projectPath w1 of
             (Some err, w2) \<Rightarrow> (Some (Wrapf ''failed to create project directory'' err), w2)
           | (None, w2) \<Rightarrow> (None, w2)))"

definition InitProject_database :: "'t env \<Rightarrow> Engine \<Rightarrow> InitOptions \<Rightarrow> world \<Rightarrow> error option \<times> world"
  where
  "InitProject_database E e opts w =
     (if Database opts \<noteq> ''none''
      then
        (let w1 = Printf (arrow @ '' Adding '' @ Database opts @ '' database...\<newline>'') w
         in case GetModule (registry e) ''db'' (Database opts) of
              None \<Rightarrow> (Some (Errorf (''database module '' @ Database opts @ '' not found'')), w1)
            | Some modl \<Rightarrow>
                (case Apply E modl w1 of
                   (Some err, w2) \<Rightarrow> (Some (Wrapf ''failed to apply database module'' err), w2)
                 | (None, w2) \<Rightarrow> (None, w2)))
      else (None, w))"

definition InitProject_openapi :: "'t env \<Rightarrow> Engine \<Rightarrow> InitOptions \<Rightarrow> world \<Rightarrow> error option \<times> world"
  where
  "InitProject_openapi E e opts w =
     (if OpenAPI opts \<noteq> ''none''
      then
        (let w1 = Printf (arrow @ '' Adding OpenAPI ('' @ OpenAPI opts @ '' mode)...\<newline>'') w
         in case GetModule (registry e) ''openapi'' (OpenAPI opts) of
              None \<Rightarrow> (Some (Errorf (''openapi module '' @ OpenAPI opts @ '' not found'')), w1)
            | Some modl \<Rightarrow>
                (case Apply E modl w1 of
                   (Some err, w2) \<Rightarrow> (Some (Wrapf ''failed to apply openapi module'' err), w2)
                 | (None, w2) \<Rightarrow> (None, w2)))
      else (None, w))"

definition InitProject_docker :: "'t env \<Rightarrow> Engine \<Rightarrow> InitOptions \<Rightarrow> world \<Rightarrow> error option \<times> world"
  where
  "InitProject_docker E e opts w =
     (if Docker opts
      then
        (let w1 = Println (arrow @ '' Adding Docker configuration...'') w
         in case GetModule (registry e) ''docker'' [] of
              None \<Rightarrow> (Some (Errorf ''docker module not found''), w1)
            | Some modl \<Rightarrow>
                (case Apply E modl w1 of
                   (Some err, w2) \<Rightarrow> (Some (Wrapf ''failed to apply docker module'' err), w2)
                 | (None, w2) \<Rightarrow> (None, w2)))
      else (None, w))"

text \<open>The Context that \<^verbatim>\<open>InitProject\<close> allocates.\<close>

definition InitProject_context :: "string \<Rightarrow> InitOptions \<Rightarrow> Context" where
  "InitProject_context projectPath opts =
     \<lparr>ProjectPath = projectPath,
      Options = opts,
      TemplateData =
        [''ProjectName'' \<mapsto> VString (ProjectName opts),
         ''ModulePath'' \<mapsto> VString (ModulePath opts),
         ''Router'' \<mapsto> VString (Router opts),
         ''Database'' \<mapsto> VString (Database opts),
         ''OpenAPI'' \<mapsto> VString (OpenAPI opts),
         ''Migrations'' \<mapsto> VString (Migrations opts),
         ''HasDocker'' \<mapsto> VBool (Docker opts)]\<rparr>"

text \<open>What \<^verbatim>\<open>InitProject\<close> does once the project directory is there.\<close>

definition InitProject_generate :: "'t env \<Rightarrow> Engine \<Rightarrow> string \<Rightarrow> InitOptions \<Rightarrow> world
                                     \<Rightarrow> error option \<times> world" where
  "InitProject_generate E e projectPath opts w =
     (let ctx = InitProject_context projectPath opts;
          w1 = Println (arrow @ '' Applying base template...'') (w\<lparr>heap := Some ctx\<rparr>)
      in case applyTemplate E e ''files/base'' projectPath (TemplateData ctx) w1 of
           (Some err, w2) \<Rightarrow> (Some (Wrapf ''failed to apply base template'' err), w2)
         | (None, w2) \<Rightarrow>
             (case InitProject_database E e opts w2 of
                (Some err, w3) \<Rightarrow> (Some err, w3)
              | (None, w3) \<Rightarrow>
                  (case InitProject_openapi E e opts w3 of
                     (Some err, w4) \<Rightarrow> (Some err, w4)
                   | (None, w4) \<Rightarrow>
                       (case InitProject_docker E e opts w4 of
                          (Some err, w5) \<Rightarrow> (Some err, w5)
                        | (None, w5) \<Rightarrow>
                            (case runPostSteps E e projectPath opts
                                    (Println (arrow @ '' Running post-generation steps...'') w5) of
                               (Some err, w6) \<Rightarrow>
                                 (Some (Wrapf ''post-generation steps failed'' err), w6)
                             | (None, w6) \<Rightarrow> (None, w6))))))"

definition InitProject :: "'t env \<Rightarrow> Engine \<Rightarrow> string \<Rightarrow> InitOptions \<Rightarrow> world \<Rightarrow> error option \<times> world"
  where
  "InitProject E e projectPath opts w =
     (case validateInitOptions e opts of
        Some err \<Rightarrow> (Some err, w)
      | None \<Rightarrow>
          (case InitProject_directory projectPath opts w of
             (Some err, w1) \<Rightarrow> (Some err, w1)
           | (None, w1) \<Rightarrow> InitProject_generate E e projectPath opts w1))"

subsection \<open>Reading the module path back\<close>

text \<open>
  \<^verbatim>\<open>Engine.getModulePath\<close>: the first line of \<open>projectPath/go.mod\<close> whose trimmed text
  begins with \<open>module \<close> gives the path; the loop over the lines is \<open>getModulePath_lines\<close>.
\<close>

fun getModulePath_lines :: "string list \<Rightarrow> error + string" where
  "getModulePath_lines [] = Inl (Errorf ''module path not found in go.mod'')"
| "getModulePath_lines (line # lines) =
     (if HasPrefix (TrimSpace line) ''module ''
      then Inr (TrimSpace (TrimPrefix (TrimSpace line) ''module ''))
      else getModulePath_lines lines)"

definition getModulePath :: "Engine \<Rightarrow> string \<Rightarrow> world \<Rightarrow> error + string" where
  "getModulePath e projectPath w =
     (let modFile = filepath_Join [projectPath, ''go.mod'']
      in case os_ReadFile modFile w of
           Inl err \<Rightarrow> Inl (Wrapf ''failed to read go.mod'' err)
         | Inr content \<Rightarrow> getModulePath_lines (Split content CHR 0x0A))"

subsection \<open>AddModule\<close>




section \<open>Package cmd: the init command\<close>

text \<open>
  The flags of the init command and its \<^verbatim>\<open>RunE\<close>; \<open>projectName\<close> is the one argument
  that \<^verbatim>\<open>cobra.ExactArgs(1)\<close> lets through.
\<close>

record initFlags =
  modulePath :: string
  router :: string
  database :: string
  openapi :: string
  specPath :: string
  docker :: bool
  migrations :: string
  force :: bool

definition checkMark :: string where
  "checkMark = [CHR 0xE2, CHR 0x9C, CHR 0x93]"

definition initCmd_RunE :: "'t env \<Rightarrow> initFlags \<Rightarrow> string \<Rightarrow> world \<Rightarrow> error option \<times> world" where
  "initCmd_RunE E flags projectName w =
     (if modulePath flags = [] then (Some (Errorf ''--module flag is required''), w)
      else if openapi flags = ''gen'' \<and> specPath flags = []
      then (Some (Errorf ''--spec flag is required when using --openapi gen''), w)
      else
        (let projectPath = filepath_Join [''.'', projectName]
         in if os_Stat_ok projectPath w \<and> \<not> force flags
            then (Some (Errorf (''directory '' @ projectName
                                @ '' already exists (use --force to overwrite)'')), w)
            else
              (let eng = NewEngine;
                   opts = \<lparr>ProjectName = projectName, ModulePath = modulePath flags,
                           Router = router flags, Database = database flags,
                           OpenAPI = openapi flags, SpecPath = specPath flags,
                           Docker = docker flags, Migrations = migrations flags,
                           Force = force flags\<rparr>;
                   w1 = Printf (''Initializing project: '' @ projectName @ ''\<newline>'') w;
                   w2 = Printf (''Module path: '' @ modulePath flags @ ''\<newline>'') w1
               in case InitProject E eng projectPath opts w2 of
                    (Some err, w3) \<Rightarrow> (Some (Wrapf ''failed to initialize project'' err), w3)
                  | (None, w3) \<Rightarrow>
                      (None,
                       Printf ''  go run cmd/server/main.go\<newline>''
                        (Printf ''  go mod download\<newline>''
                          (Printf (''  cd '' @ projectName @ ''\<newline>'')
                            (Printf ''\<newline>Next steps:\<newline>''
                              (Printf (''\<newline>'' @ checkMark @ '' Project '' @ projectName
                                       @ '' created successfully!\<newline>'') w3))))))))"

section \<open>Package text/template on the templates of this generator\<close>

text \<open>
  A model of \<^verbatim>\<open>text/template\<close> with default options on data of type
  \<^verbatim>\<open>map[string]interface{}\<close>, for templates made of text, of the interpolation of a
  variable (an action \<open>{{.Key}}\<close>) and of conditionals on a variable
  (\<open>{{if .Key}}\<close>, \<open>{{else}}\<close>, \<open>{{end}}\<close>). An action is the text between \<open>{{\<close> and the
  next \<open>}}\<close>, with blanks around it ignored. Any other action is \<open>Unmodelled\<close>.
\<close>

datatype token =
  TokText string | TokField string | TokIf string | TokElse | TokEnd | TokUnclosed
  | TokOther string

datatype tmplNode =
  TextNode string | FieldNode string | IfNode string "tmplNode list" "tmplNode list"

definition isAlphaNumeric :: "char \<Rightarrow> bool" where
  "isAlphaNumeric c =
     (c = CHR ''_'' \<or> (CHR ''a'' \<le> c \<and> c \<le> CHR ''z'') \<or> (CHR ''A'' \<le> c \<and> c \<le> CHR ''Z'')
      \<or> (CHR ''0'' \<le> c \<and> c \<le> CHR ''9''))"

text \<open>A field: a dot, then a name of letters, digits and underscores that starts with no digit.\<close>

definition isField :: "string \<Rightarrow> bool" where
  "isField b =
     (case b of
        c # k # ks \<Rightarrow> c = CHR ''.'' \<and> \<not> (CHR ''0'' \<le> k \<and> k \<le> CHR ''9'') \<and> list_all isAlphaNumeric (k # ks)
      | _ \<Rightarrow> False)"

definition trimBlanks :: "string \<Rightarrow> string" where
  "trimBlanks s = rev (dropWhile (\<lambda>c. c = CHR '' '') (rev (dropWhile (\<lambda>c. c = CHR '' '') s)))"

definition classify :: "string \<Rightarrow> token" where
  "classify body =
     (let b = trimBlanks body
      in if b = ''end'' then TokEnd
         else if b = ''else'' then TokElse
         else if isField b then TokField (tl b)
         else if HasPrefix b ''if '' \<and> isField (trimBlanks (drop 3 b))
         then TokIf (tl (trimBlanks (drop 3 b)))
         else TokOther b)"

definition emitText :: "string \<Rightarrow> token list \<Rightarrow> token list" where
  "emitText acc ts = (if acc = [] then ts else TokText (rev acc) # ts)"

text \<open>
  The lexer: \<open>lexText acc s\<close> reads text (\<open>acc\<close> is the text read so far, reversed) up to
  the next \<open>{{\<close>; \<open>lexAction acc s\<close> reads an action up to the next \<open>}}\<close>.
\<close>

fun lexText :: "string \<Rightarrow> string \<Rightarrow> token list"
  and lexAction :: "string \<Rightarrow> string \<Rightarrow> token list" where
  "lexText acc [] = emitText acc []"
| "lexText acc [c] = emitText (c # acc) []"
| "lexText acc (c # d # cs) =
     (if c = CHR ''{'' \<and> d = CHR ''{'' then emitText acc (lexAction [] cs)
      else lexText (c # acc) (d # cs))"
| "lexAction acc [] = [TokUnclosed]"
| "lexAction acc [c] = [TokUnclosed]"
| "lexAction acc (c # d # cs) =
     (if c = CHR ''}'' \<and> d = CHR ''}'' then classify (rev acc) # lexText [] cs
      else lexAction (c # acc) (d # cs))"

text \<open>
  The parser: \<open>st\<close> is the stack of the conditionals that are open, each with its
  variable, its first branch once \<open>{{else}}\<close> has been read, and the nodes read before
  it; \<open>cur\<close> is the list being read, reversed.
\<close>

fun parseTokens :: "(string \<times> tmplNode list option \<times> tmplNode list) list \<Rightarrow> tmplNode list
                     \<Rightarrow> token list \<Rightarrow> error + tmplNode list" where
  "parseTokens st cur [] =
     (if st = [] then Inr (rev cur) else Inl (ParseError ''unexpected EOF''))"
| "parseTokens st cur (TokText s # ts) = parseTokens st (TextNode s # cur) ts"
| "parseTokens st cur (TokField k # ts) = parseTokens st (FieldNode k # cur) ts"
| "parseTokens st cur (TokIf k # ts) = parseTokens ((k, None, cur) # st) [] ts"
| "parseTokens st cur (TokElse # ts) =
     (case st of
        (k, None, outer) # st' \<Rightarrow> parseTokens ((k, Some (rev cur), outer) # st') [] ts
      | _ \<Rightarrow> Inl (ParseError ''unexpected {{else}}''))"
| "parseTokens st cur (TokEnd # ts) =
     (case st of
        [] \<Rightarrow> Inl (ParseError ''unexpected {{end}}'')
      | (k, None, outer) # st' \<Rightarrow> parseTokens st' (IfNode k (rev cur) [] # outer) ts
      | (k, Some yes, outer) # st' \<Rightarrow> parseTokens st' (IfNode k yes (rev cur) # outer) ts)"
| "parseTokens st cur (TokUnclosed # ts) = Inl (ParseError ''unclosed action'')"
| "parseTokens st cur (TokOther b # ts) = Inl (Unmodelled b)"

definition text_Parse :: "string \<Rightarrow> error + tmplNode list" where
  "text_Parse content = parseTokens [] [] (lexText [] content)"

text \<open>
  Execution. A variable that the data lacks prints as \<open><no value>\<close> and is false in a
  conditional; a string is true when it is not empty.
\<close>

fun printValue :: "tvalue option \<Rightarrow> string" where
  "printValue None = ''<no value>''"
| "printValue (Some (VString s)) = s"
| "printValue (Some (VBool b)) = (if b then ''true'' else ''false'')"

fun isTrue :: "tvalue option \<Rightarrow> bool" where
  "isTrue None = False"
| "isTrue (Some (VString s)) = (s \<noteq> [])"
| "isTrue (Some (VBool b)) = b"

fun execNode :: "(string \<rightharpoonup> tvalue) \<Rightarrow> tmplNode \<Rightarrow> string"
  and execList :: "(string \<rightharpoonup> tvalue) \<Rightarrow> tmplNode list \<Rightarrow> string" where
  "execNode data (TextNode s) = s"
| "execNode data (FieldNode k) = printValue (data k)"
| "execNode data (IfNode k yes no) =
     (if isTrue (data k) then execList data yes else execList data no)"
| "execList data [] = []"
| "execList data (n # ns) = execNode data n @ execList data ns"

definition text_Execute :: "tmplNode list \<Rightarrow> (string \<rightharpoonup> tvalue) \<Rightarrow> error + string" where
  "text_Execute tmpl data = Inr (execList data tmpl)"

text \<open>The environment with this model of text/template.\<close>

definition goEnv :: "embedded
                      \<Rightarrow> (string list \<Rightarrow> string \<Rightarrow> filesystem \<Rightarrow> (string \<times> bool) \<times> filesystem)
                      \<Rightarrow> (tmplNode list) env" where
  "goEnv store commands =
     \<lparr>template_Parse = text_Parse, template_Execute = text_Execute,
      templatesFS = store, exec_Command = commands\<rparr>"

section \<open>Vocabulary of the properties\<close>

text \<open>
  A step that changes nothing of the world but the file system: what has been printed,
  the commands run and the Context are as before.
\<close>

definition changesDiskOnly :: "(world \<Rightarrow> 'a \<times> world) \<Rightarrow> bool" where
  "changesDiskOnly f =
     (\<forall>w. stdout (snd (f w)) = stdout w \<and> procs (snd (f w)) = procs w
          \<and> heap (snd (f w)) = heap w)"

text \<open>
  The name under which the overlay applier writes an entry of a bundle: none for the
  root of the bundle and for a directory; the name with the marker \<open>.tmpl\<close> stripped for
  a template file; the same relative name for any other file.
\<close>

definition destinationOf :: "string \<Rightarrow> string \<Rightarrow> string \<times> embedded \<Rightarrow> string option" where
  "destinationOf templatePath destPath = (\<lambda>(path, d).
     if path = templatePath then None
     else
       (case filepath_Rel templatePath path of
          Inl _ \<Rightarrow> None
        | Inr relPath \<Rightarrow>
            (case d of
               EDir _ \<Rightarrow> None
             | EFile _ \<Rightarrow>
                 Some (if HasSuffix path ''.tmpl''
                       then TrimSuffix (filepath_Join [destPath, relPath]) ''.tmpl''
                       else filepath_Join [destPath, relPath]))))"

text \<open>
  The bytes the overlay applier writes for the file of the store at \<open>path\<close>: the
  template rendered with the variables for a template file, the bytes of the file
  otherwise.
\<close>

definition bytesOf :: "'t env \<Rightarrow> (string \<rightharpoonup> tvalue) \<Rightarrow> string \<Rightarrow> error + string" where
  "bytesOf E data path =
     (case fs_ReadFile (templatesFS E) path of
        Inl err \<Rightarrow> Inl err
      | Inr content \<Rightarrow>
          if HasSuffix path ''.tmpl''
          then (case template_Parse E content of
                  Inl err \<Rightarrow> Inl err
                | Inr tmpl \<Rightarrow> template_Execute E tmpl data)
          else Inr content)"

text \<open>
  The files of the bundle with root \<open>root\<close> at \<open>templatePath\<close> that the overlay applier
  writes to the resolved destination \<open>p\<close>, in the order of the walk.
\<close>

definition filesFor :: "string \<Rightarrow> string \<Rightarrow> embedded \<Rightarrow> string list \<Rightarrow> string list" where
  "filesFor templatePath destPath root p =
     map fst (filter (\<lambda>x. map_option resolve (destinationOf templatePath destPath x) = Some p)
                (walk templatePath root))"

section \<open>A small store and a small world\<close>

text \<open>
  A store with a base bundle and a Docker bundle that both hold a file for
  \<open>README.md\<close>, and a bundle with a template that does not parse; a world in which the
  project directory \<open>proj\<close> exists and is not empty; commands that all succeed, and
  commands that all fail.
\<close>

definition exampleStore :: embedded where
  "exampleStore =
     EDir [(''files'',
       EDir [(''base'',
                EDir [(''README.md.tmpl'', EFile ''# {{.ProjectName}}''),
                      (''cmd'', EDir [(''main.go'', EFile ''package main'')])]),
             (''broken'', EDir [(''bad.txt.tmpl'', EFile ''{{.Oops'')]),
             (''docker'',
                EDir [(''Dockerfile'', EFile ''FROM scratch''),
                      (''README.md'', EFile ''docker'')])])]"

definition exampleWorld :: world where
  "exampleWorld =
     \<lparr>disk = [[''proj''] \<mapsto> Dir, [''proj'', ''old.txt''] \<mapsto> File ''keep''],
      stdout = [], procs = [], heap = None\<rparr>"


definition okCommands :: "string list \<Rightarrow> string \<Rightarrow> filesystem \<Rightarrow> (string \<times> bool) \<times> filesystem" where
  "okCommands argv dir fs = (([], True), fs)"


definition exampleData :: "string \<rightharpoonup> tvalue" where
  "exampleData = [''ProjectName'' \<mapsto> VString ''proj'']"

definition exampleOptions :: InitOptions where
  "exampleOptions =
     \<lparr>ProjectName = ''proj'', ModulePath = ''example.com/proj'', Router = ''chi'',
      Database = ''none'', OpenAPI = ''none'', SpecPath = [], Docker = False,
      Migrations = ''none'', Force = False\<rparr>"

definition exampleFlags :: initFlags where
  "exampleFlags =
     \<lparr>modulePath = ''example.com/proj'', router = ''chi'', database = ''none'',
      openapi = ''none'', specPath = [], docker = False, migrations = ''none'', force = False\<rparr>"

section \<open>Properties of the library models\<close>

subsection \<open>White space\<close>

lemma spaceRunes_nonempty: "r \<in> set spaceRunes \<Longrightarrow> r \<noteq> []"
  by (auto simp: spaceRunes_def)

lemma spaceWidthEnd_zero:
  "spaceWidthEnd s = 0 \<longleftrightarrow>
     s = [] \<or> (\<not> asciiSpace (last s)
                 \<and> (\<forall>r \<in> set spaceRunes. \<not> (length r \<le> length s \<and> drop (length s - length r) s = r)))"
proof (cases s rule: rev_cases)
  case Nil
  then show ?thesis by (simp add: spaceWidthEnd_def)
next
  case (snoc ys y)
  let ?P = "\<lambda>r. length r \<le> length s \<and> drop (length s - length r) s = r"
  have sw: "spaceWidthEnd s = (if asciiSpace y then 1
          else (case filter ?P spaceRunes of [] \<Rightarrow> 0 | r # _ \<Rightarrow> length r))"
    using snoc by (simp add: spaceWidthEnd_def)
  show ?thesis
  proof (cases "filter ?P spaceRunes")
    case Nil
    then have "\<forall>r \<in> set spaceRunes. \<not> ?P r" by (simp add: filter_empty_conv)
    then show ?thesis using sw Nil snoc by auto
  next
    case (Cons r rs)
    then have "r \<in> set (filter ?P spaceRunes)" by simp
    then have r: "r \<in> set spaceRunes" "?P r" by auto
    then have "length r \<noteq> 0" using spaceRunes_nonempty by blast
    then have "spaceWidthEnd s \<noteq> 0" using sw Cons by simp
    then show ?thesis using r snoc by blast
  qed
qed

lemma spaceWidthEnd_posI:
  "s \<noteq> [] \<Longrightarrow> asciiSpace (last s) \<Longrightarrow> spaceWidthEnd s \<noteq> 0"
  "r \<in> set spaceRunes \<Longrightarrow> length r \<le> length s \<Longrightarrow> drop (length s - length r) s = r
     \<Longrightarrow> spaceWidthEnd s \<noteq> 0"
proof -
  show "s \<noteq> [] \<Longrightarrow> asciiSpace (last s) \<Longrightarrow> spaceWidthEnd s \<noteq> 0"
    by (simp add: spaceWidthEnd_zero)
next
  assume r: "r \<in> set spaceRunes" "length r \<le> length s" "drop (length s - length r) s = r"
  then have "r \<noteq> []" using spaceRunes_nonempty by simp
  with r(2) have "s \<noteq> []" by auto
  moreover have "\<exists>r \<in> set spaceRunes. length r \<le> length s \<and> drop (length s - length r) s = r"
    using r by (intro bexI[of _ r]) simp_all
  ultimately show "spaceWidthEnd s \<noteq> 0"
    by (simp only: spaceWidthEnd_zero) simp
qed

lemma spaceWidthEnd_posD:
  assumes "spaceWidthEnd s \<noteq> 0"
  shows "s \<noteq> []"
    and "asciiSpace (last s)
      \<or> (\<exists>r \<in> set spaceRunes. length r \<le> length s \<and> drop (length s - length r) s = r)"
proof -
  have z: "\<not> (s = [] \<or> (\<not> asciiSpace (last s)
      \<and> (\<forall>r \<in> set spaceRunes. \<not> (length r \<le> length s \<and> drop (length s - length r) s = r))))"
    using assms unfolding spaceWidthEnd_zero .
  from z show "s \<noteq> []" by simp
  from z show "asciiSpace (last s)
      \<or> (\<exists>r \<in> set spaceRunes. length r \<le> length s \<and> drop (length s - length r) s = r)"
    by simp
qed

lemma spaceWidthEnd_append:
  assumes "t \<noteq> []" "spaceWidthEnd t \<noteq> 0"
  shows "spaceWidthEnd (p @ t) \<noteq> 0"
proof -
  from spaceWidthEnd_posD(2)[OF assms(2)] show ?thesis
  proof
    assume "asciiSpace (last t)"
    then have "asciiSpace (last (p @ t))" using assms(1) by simp
    moreover have "p @ t \<noteq> []" using assms(1) by simp
    ultimately show ?thesis by (rule spaceWidthEnd_posI(1)[rotated])
  next
    assume "\<exists>r \<in> set spaceRunes. length r \<le> length t \<and> drop (length t - length r) t = r"
    then obtain r where r: "r \<in> set spaceRunes" "length r \<le> length t"
      "drop (length t - length r) t = r" by (elim bexE conjE)
    have "length r \<le> length (p @ t)" using r(2) by simp
    moreover have "drop (length (p @ t) - length r) (p @ t) = r"
      using r(2,3) by simp
    ultimately show ?thesis using r(1) by (rule spaceWidthEnd_posI(2)[rotated])
  qed
qed

lemma TrimRightSpace_end: "spaceWidthEnd (TrimRightSpace s) = 0"
  by (induction s rule: TrimRightSpace.induct) (subst TrimRightSpace.simps, simp)

lemma TrimLeftSpace_suffix: "\<exists>p. s = p @ TrimLeftSpace s"
proof (induction s rule: TrimLeftSpace.induct)
  case (1 s)
  show ?case
  proof (cases "spaceWidth s = 0")
    case True
    then show ?thesis by (subst TrimLeftSpace.simps) simp
  next
    case False
    with 1 obtain p where "drop (spaceWidth s) s = p @ TrimLeftSpace (drop (spaceWidth s) s)"
      by blast
    then have "s = (take (spaceWidth s) s @ p) @ TrimLeftSpace (drop (spaceWidth s) s)"
      by (metis append.assoc append_take_drop_id)
    moreover have "TrimLeftSpace s = TrimLeftSpace (drop (spaceWidth s) s)"
      using False by (subst TrimLeftSpace.simps) simp
    ultimately have "s = (take (spaceWidth s) s @ p) @ TrimLeftSpace s" by simp
    then show ?thesis by (rule exI)
  qed
qed

lemma spaceWidth_whole:
  assumes "spaceWidth s \<noteq> 0" "drop (spaceWidth s) s = []"
  shows "spaceWidthEnd s \<noteq> 0"
proof (cases s)
  case Nil
  then show ?thesis using assms by (simp add: spaceWidth_def)
next
  case (Cons c cs)
  show ?thesis
  proof (cases "asciiSpace c")
    case True
    then have "spaceWidth s = 1" using Cons by (simp add: spaceWidth_def)
    then have "cs = []" using assms(2) Cons by simp
    then show ?thesis using True Cons by (intro spaceWidthEnd_posI(1)) simp_all
  next
    case False
    let ?P = "\<lambda>r. take (length r) s = r"
    from False Cons assms(1) obtain r rs where f: "filter ?P spaceRunes = r # rs"
      by (auto simp: spaceWidth_def split: list.splits)
    then have w: "spaceWidth s = length r" using False Cons by (simp add: spaceWidth_def)
    have "r \<in> set (filter ?P spaceRunes)" using f by simp
    then have r: "r \<in> set spaceRunes" "take (length r) s = r" by auto
    from assms(2) w have "length s \<le> length r" by simp
    with r(2) have "s = r" by (metis take_all)
    then have "length r \<le> length s" "drop (length s - length r) s = r" by simp_all
    then show ?thesis using r(1) by (intro spaceWidthEnd_posI(2)[of r])
  qed
qed

lemma TrimLeftSpace_empty: "TrimLeftSpace s = [] \<Longrightarrow> s = [] \<or> spaceWidthEnd s \<noteq> 0"
proof (induction s rule: TrimLeftSpace.induct)
  case (1 s)
  show ?case
  proof (cases "spaceWidth s = 0")
    case True
    with 1(2) show ?thesis by (subst (asm) TrimLeftSpace.simps) simp
  next
    case False
    with 1(2) have e: "TrimLeftSpace (drop (spaceWidth s) s) = []"
      by (subst (asm) TrimLeftSpace.simps) simp
    with 1(1) False have d: "drop (spaceWidth s) s = [] \<or> spaceWidthEnd (drop (spaceWidth s) s) \<noteq> 0"
      by blast
    show ?thesis
    proof (cases "drop (spaceWidth s) s = []")
      case True
      then show ?thesis using False spaceWidth_whole by blast
    next
      case False
      with d have "spaceWidthEnd (take (spaceWidth s) s @ drop (spaceWidth s) s) \<noteq> 0"
        using spaceWidthEnd_append by blast
      then show ?thesis by simp
    qed
  qed
qed

lemma TrimSpace_module_rest:
  assumes "HasPrefix (TrimSpace line) ''module ''"
  shows "TrimSpace (TrimPrefix (TrimSpace line) ''module '') \<noteq> []"
proof -
  define u where "u = TrimSpace line"
  define rest where "rest = drop (length ''module '') u"
  have "take (length ''module '') u = ''module ''"
    using assms unfolding HasPrefix_def u_def .
  then have u: "u = ''module '' @ rest"
    unfolding rest_def by (metis append_take_drop_id)
  have end_u: "spaceWidthEnd u = 0"
    by (simp add: u_def TrimSpace_def TrimRightSpace_end)
  have rest_ne: "rest \<noteq> []"
  proof
    assume "rest = []"
    with u have "u \<noteq> [] \<and> last u = CHR 0x20" by simp
    then have "u \<noteq> []" "asciiSpace (last u)" by (simp_all add: asciiSpace_def)
    then show False using end_u spaceWidthEnd_posI(1) by blast
  qed
  have "spaceWidthEnd rest \<noteq> 0 \<Longrightarrow> spaceWidthEnd u \<noteq> 0"
    using spaceWidthEnd_append[OF rest_ne, of "''module ''"] by (subst u) blast
  then have end_rest: "spaceWidthEnd rest = 0" using end_u by blast
  obtain p where p: "rest = p @ TrimLeftSpace rest"
    using TrimLeftSpace_suffix by blast
  have v_ne: "TrimLeftSpace rest \<noteq> []"
    using TrimLeftSpace_empty[of rest] rest_ne end_rest by blast
  have "spaceWidthEnd (TrimLeftSpace rest) \<noteq> 0 \<Longrightarrow> spaceWidthEnd rest \<noteq> 0"
    using spaceWidthEnd_append[OF v_ne, of p] by (subst p) blast
  then have "spaceWidthEnd (TrimLeftSpace rest) = 0" using end_rest by blast
  then have "TrimRightSpace (TrimLeftSpace rest) = TrimLeftSpace rest"
    by (subst TrimRightSpace.simps) simp
  then have "TrimSpace rest \<noteq> []" using v_ne by (simp add: TrimSpace_def)
  moreover have "TrimPrefix (TrimSpace line) ''module '' = rest"
    using assms unfolding TrimPrefix_def rest_def u_def by simp
  ultimately show ?thesis by simp
qed

section \<open>Reading the module path back: getModulePath\<close>

lemma getModulePath_lines_filter:
  "getModulePath_lines ls =
     (case filter (\<lambda>l. HasPrefix (TrimSpace l) ''module '') ls of
        [] \<Rightarrow> Inl (Errorf ''module path not found in go.mod'')
      | line # _ \<Rightarrow> Inr (TrimSpace (TrimPrefix (TrimSpace line) ''module '')))"
  by (induction ls) simp_all

lemma getModulePath_lines_nonempty: "getModulePath_lines ls \<noteq> Inr []"
  by (induction ls) (simp_all add: TrimSpace_module_rest)

text \<open>
  C8. \<open>getModulePath\<close> reads \<open>projectPath/go.mod\<close>. When the file cannot be read it
  returns the error of the read, wrapped. Otherwise, among the lines of the file it takes
  the first whose trimmed text begins with \<open>module \<close> and returns the trimmed rest of
  that line; when there is no such line it returns an error. It never returns the empty
  path as a success.
\<close>

theorem getModulePath_first_module_line:
  "getModulePath e projectPath w =
     (case os_ReadFile (filepath_Join [projectPath, ''go.mod'']) w of
        Inl err \<Rightarrow> Inl (Wrapf ''failed to read go.mod'' err)
      | Inr content \<Rightarrow>
          (case filter (\<lambda>l. HasPrefix (TrimSpace l) ''module '') (Split content CHR 0x0A) of
             [] \<Rightarrow> Inl (Errorf ''module path not found in go.mod'')
           | line # _ \<Rightarrow> Inr (TrimSpace (TrimPrefix (TrimSpace line) ''module ''))))
   \<and> getModulePath e projectPath w \<noteq> Inr []"
proof -
  have "getModulePath e projectPath w \<noteq> Inr []"
    using getModulePath_lines_nonempty
    by (auto simp: getModulePath_def Let_def split: sum.splits)
  then show ?thesis
    by (simp add: getModulePath_def Let_def getModulePath_lines_filter split: sum.splits)
qed

section \<open>The two renderers\<close>


section \<open>Validation\<close>

lemma index_upd: "index (m(k \<mapsto> b)) x = (if x = k then b else index m x)"
  by (simp add: index_def)

lemma index_empty: "index Map.empty x = False"
  by (simp add: index_def)

text \<open>
  C4. When the router of the options is none of chi, gin and fiber, \<open>InitProject\<close>
  returns the error that names the router, its value and the allowed set, whatever the
  other fields are, and the world is untouched. The fields are checked in the order
  router, database, openapi, migrations: the first one outside its domain is the one
  reported, and the world is untouched in each case.
\<close>

theorem InitProject_validation_fails_fast:
  "(Router opts \<notin> {''chi'', ''gin'', ''fiber''} \<longrightarrow>
      InitProject E e projectPath opts w =
        (Some (Errorf (''invalid router: '' @ Router opts @ '' (must be chi, gin, or fiber)'')), w))
   \<and> (Router opts \<in> {''chi'', ''gin'', ''fiber''}
        \<and> Database opts \<notin> {''none'', ''postgres'', ''mongo''} \<longrightarrow>
      InitProject E e projectPath opts w =
        (Some (Errorf (''invalid database: '' @ Database opts
                        @ '' (must be none, postgres, or mongo)'')), w))
   \<and> (Router opts \<in> {''chi'', ''gin'', ''fiber''}
        \<and> Database opts \<in> {''none'', ''postgres'', ''mongo''}
        \<and> OpenAPI opts \<notin> {''none'', ''gen'', ''manual''} \<longrightarrow>
      InitProject E e projectPath opts w =
        (Some (Errorf (''invalid openapi: '' @ OpenAPI opts
                        @ '' (must be none, gen, or manual)'')), w))
   \<and> (Router opts \<in> {''chi'', ''gin'', ''fiber''}
        \<and> Database opts \<in> {''none'', ''postgres'', ''mongo''}
        \<and> OpenAPI opts \<in> {''none'', ''gen'', ''manual''}
        \<and> Migrations opts \<notin> {''none'', ''goose''} \<longrightarrow>
      InitProject E e projectPath opts w =
        (Some (Errorf (''invalid migrations: '' @ Migrations opts
                        @ '' (must be none or goose)'')), w))"
  by (simp add: InitProject_def validateInitOptions_def Let_def index_upd index_empty)

theorem InitProject_validation_fails_fast_witness:
  "InitProject (goEnv exampleStore okCommands) NewEngine ''proj''
     (exampleOptions\<lparr>Router := ''invalid'', Database := ''oracle''\<rparr>) exampleWorld =
     (Some (Errorf ''invalid router: invalid (must be chi, gin, or fiber)''), exampleWorld)
   \<and> InitProject (goEnv exampleStore okCommands) NewEngine ''proj''
     (exampleOptions\<lparr>Database := ''oracle'', Migrations := ''flyway''\<rparr>) exampleWorld =
     (Some (Errorf ''invalid database: oracle (must be none, postgres, or mongo)''), exampleWorld)"
  using InitProject_validation_fails_fast
          [of "exampleOptions\<lparr>Router := ''invalid'', Database := ''oracle''\<rparr>"
              "goEnv exampleStore okCommands" NewEngine "''proj''" exampleWorld]
        InitProject_validation_fails_fast
          [of "exampleOptions\<lparr>Database := ''oracle'', Migrations := ''flyway''\<rparr>"
              "goEnv exampleStore okCommands" NewEngine "''proj''" exampleWorld]
  by (simp add: exampleOptions_def)

section \<open>A variable that the mapping lacks\<close>












section \<open>Steps that change the file system only\<close>



lemma changesDiskOnly_return: "changesDiskOnly (\<lambda>w. (r, w))"
  by (simp add: changesDiskOnly_def)



lemma changesDiskOnly_RemoveAll: "changesDiskOnly (os_RemoveAll path)"
  by (simp add: changesDiskOnly_def os_RemoveAll_def)



lemma changesDiskOnly_renderTemplate: "changesDiskOnly (renderTemplate E content data)"
  by (simp add: changesDiskOnly_def renderTemplate_def split: sum.splits)





lemma Engine_renderTemplate_eq:
  "Engine_renderTemplate E e content data w = renderTemplate E content data w"
  by (simp add: Engine_renderTemplate_def renderTemplate_def)

lemma applyTemplate_fn_eq:
  "applyTemplate_fn E e templatePath destPath data = ApplyModuleTemplate_fn E templatePath destPath data"
  unfolding applyTemplate_fn_def ApplyModuleTemplate_fn_def Engine_renderTemplate_eq
  by (rule refl)

lemma applyTemplate_eq:
  "applyTemplate E e templatePath destPath data w = ApplyModuleTemplate E templatePath destPath data w"
  by (simp add: applyTemplate_def ApplyModuleTemplate_def applyTemplate_fn_eq)



text \<open>
  C10. The renderer of the engine and the renderer of the modules return the same result
  on every template text and every variable mapping: the same bytes, or the same error,
  and both leave the world as it is. So the overlay applier of the engine, which renders
  the base bundle, and the one of the modules do the same on every bundle.
\<close>

theorem renderers_agree:
  "Engine_renderTemplate E e content data w = renderTemplate E content data w
   \<and> applyTemplate E e templatePath destPath data w
       = ApplyModuleTemplate E templatePath destPath data w"
  by (simp add: Engine_renderTemplate_def renderTemplate_def applyTemplate_eq)
















section \<open>The Context of a run\<close>


lemma example_validate: "validateInitOptions NewEngine exampleOptions = None"
  by (simp add: validateInitOptions_def exampleOptions_def Let_def index_upd index_empty)



section \<open>The add-module path\<close>








section \<open>What the file system operations change\<close>

lemma mkdirs_keeps:
  "fs q = Some n \<Longrightarrow> snd (mkdirs name pre cs fs) q = Some n"
proof (induction cs arbitrary: pre fs)
  case Nil
  then show ?case by simp
next
  case (Cons c cs)
  show ?case
  proof (cases "fs (pre @ [c])")
    case None
    then have "(fs(pre @ [c] \<mapsto> Dir)) q = Some n" using Cons.prems by auto
    then show ?thesis using None Cons.IH by simp
  next
    case (Some a)
    then show ?thesis using Cons by (cases a) simp_all
  qed
qed

lemma os_MkdirAll_keeps:
  "disk w q = Some n \<Longrightarrow> disk (snd (os_MkdirAll path w)) q = Some n"
  using mkdirs_keeps[of "disk w" q n path "[]" "resolve path"]
  by (auto simp: os_MkdirAll_def split: option.splits node.splits prod.splits)

lemma os_WriteFile_written:
  "fst (os_WriteFile name data w) = None \<Longrightarrow>
     disk (snd (os_WriteFile name data w)) (resolve name) = Some (File data)"
  by (simp add: os_WriteFile_def Let_def split: if_splits)

lemma os_WriteFile_other:
  "q \<noteq> resolve name \<Longrightarrow> disk (snd (os_WriteFile name data w)) q = disk w q"
  by (simp add: os_WriteFile_def Let_def)

text \<open>Creating the directory of a file and writing the file, as the appliers do.\<close>

lemma write_in_dir_written:
  assumes "fst (case os_MkdirAll dir w of (Some err, w1) \<Rightarrow> (Some err, w1)
                | (None, w1) \<Rightarrow> os_WriteFile name data w1) = None"
  shows "disk (snd (case os_MkdirAll dir w of (Some err, w1) \<Rightarrow> (Some err, w1)
                    | (None, w1) \<Rightarrow> os_WriteFile name data w1)) (resolve name) = Some (File data)"
proof -
  obtain r w1 where m: "os_MkdirAll dir w = (r, w1)" by (cases "os_MkdirAll dir w")
  show ?thesis
  proof (cases r)
    case None
    then show ?thesis using assms m os_WriteFile_written[of name data w1] by simp
  next
    case (Some err)
    then show ?thesis using assms m by simp
  qed
qed

lemma write_in_dir_keeps:
  assumes "disk w p = Some (File c)" and "resolve name \<noteq> p"
  shows "disk (snd (case os_MkdirAll dir w of (Some err, w1) \<Rightarrow> (Some err, w1)
                    | (None, w1) \<Rightarrow> os_WriteFile name data w1)) p = Some (File c)"
proof -
  obtain r w1 where m: "os_MkdirAll dir w = (r, w1)" by (cases "os_MkdirAll dir w")
  have k: "disk w1 p = Some (File c)"
    using os_MkdirAll_keeps[OF assms(1), of dir] m by simp
  show ?thesis
  proof (cases r)
    case None
    then show ?thesis using m k os_WriteFile_other[of p name data w1] assms(2) by simp
  next
    case (Some err)
    then show ?thesis using m k by simp
  qed
qed

section \<open>One entry of an overlay\<close>

lemma renderTemplate_result:
  "renderTemplate E content data w =
     ((case template_Parse E content of
         Inl err \<Rightarrow> Inl err
       | Inr tmpl \<Rightarrow> template_Execute E tmpl data), w)"
  by (simp add: renderTemplate_def split: sum.splits)

text \<open>The function of the applier on a file of the store that is not the root.\<close>

lemma ApplyModuleTemplate_fn_file:
  assumes "path \<noteq> templatePath" and "filepath_Rel templatePath path = Inr relPath"
    and "fs_ReadFile (templatesFS E) path = Inr content"
  shows "ApplyModuleTemplate_fn E templatePath destPath data (path, EFile c) w =
     (if HasSuffix path ''.tmpl''
      then
        (case fst (renderTemplate E content data w) of
           Inl err \<Rightarrow> (Some (Wrapf (''failed to render template '' @ path) err), w)
         | Inr rendered \<Rightarrow>
             (case os_MkdirAll (filepath_Dir (TrimSuffix (filepath_Join [destPath, relPath]) ''.tmpl'')) w of
                (Some err, w2) \<Rightarrow> (Some err, w2)
              | (None, w2) \<Rightarrow>
                  os_WriteFile (TrimSuffix (filepath_Join [destPath, relPath]) ''.tmpl'') rendered w2))
      else
        (case os_MkdirAll (filepath_Dir (filepath_Join [destPath, relPath])) w of
           (Some err, w1) \<Rightarrow> (Some err, w1)
         | (None, w1) \<Rightarrow> os_WriteFile (filepath_Join [destPath, relPath]) content w1))"
  using assms
  by (simp add: ApplyModuleTemplate_fn_def Let_def renderTemplate_result split: sum.splits)

lemma ApplyModuleTemplate_fn_keeps:
  assumes "map_option resolve (destinationOf templatePath destPath x) \<noteq> Some p"
    and "disk w p = Some (File c)"
  shows "disk (snd (ApplyModuleTemplate_fn E templatePath destPath data x w)) p = Some (File c)"
proof -
  obtain path d where x: "x = (path, d)" by (cases x)
  show ?thesis
  proof (cases "path = templatePath")
    case True
    then show ?thesis using assms(2) by (simp add: x ApplyModuleTemplate_fn_def)
  next
    case root: False
    show ?thesis
    proof (cases "filepath_Rel templatePath path")
      case (Inl err)
      then show ?thesis using assms(2) root by (simp add: x ApplyModuleTemplate_fn_def)
    next
      case (Inr relPath)
      show ?thesis
      proof (cases d)
        case (EDir cs)
        then show ?thesis
          using root Inr os_MkdirAll_keeps[OF assms(2)]
          by (simp add: x ApplyModuleTemplate_fn_def Let_def)
      next
        case (EFile c0)
        show ?thesis
        proof (cases "fs_ReadFile (templatesFS E) path")
          case (Inl err)
          then show ?thesis
            using root Inr EFile assms(2) by (simp add: x ApplyModuleTemplate_fn_def Let_def)
        next
          case content: (Inr content)
          note fn = ApplyModuleTemplate_fn_file[OF root Inr content, of destPath data c0 w]
          show ?thesis
          proof (cases "HasSuffix path ''.tmpl''")
            case True
            then have ne: "resolve (TrimSuffix (filepath_Join [destPath, relPath]) ''.tmpl'') \<noteq> p"
              using assms(1) root Inr EFile by (simp add: x destinationOf_def)
            show ?thesis
            proof (cases "fst (renderTemplate E content data w)")
              case (Inl err)
              then show ?thesis using fn True assms(2) by (simp add: x EFile)
            next
              case (Inr rendered)
              then show ?thesis
                using fn True write_in_dir_keeps[OF assms(2) ne] by (simp add: x EFile)
            qed
          next
            case False
            then have ne: "resolve (filepath_Join [destPath, relPath]) \<noteq> p"
              using assms(1) root Inr EFile by (simp add: x destinationOf_def)
            show ?thesis
              using fn False write_in_dir_keeps[OF assms(2) ne] by (simp add: x EFile)
          qed
        qed
      qed
    qed
  qed
qed

lemma ApplyModuleTemplate_fn_writes:
  assumes "map_option resolve (destinationOf templatePath destPath x) = Some p"
    and "fst (ApplyModuleTemplate_fn E templatePath destPath data x w) = None"
  shows "\<exists>b. bytesOf E data (fst x) = Inr b
             \<and> disk (snd (ApplyModuleTemplate_fn E templatePath destPath data x w)) p = Some (File b)"
proof -
  obtain path d where x: "x = (path, d)" by (cases x)
  from assms(1) have root: "path \<noteq> templatePath"
    by (auto simp: x destinationOf_def split: if_splits)
  from assms(1) root obtain relPath where rel: "filepath_Rel templatePath path = Inr relPath"
    by (auto simp: x destinationOf_def split: sum.splits)
  from assms(1) root rel obtain c0 where d: "d = EFile c0"
    by (auto simp: x destinationOf_def split: embedded.splits)
  from assms(2) root rel d obtain content where content: "fs_ReadFile (templatesFS E) path = Inr content"
    by (auto simp: x ApplyModuleTemplate_fn_def Let_def split: sum.splits)
  note fn = ApplyModuleTemplate_fn_file[OF root rel content, of destPath data c0 w]
  show ?thesis
  proof (cases "HasSuffix path ''.tmpl''")
    case True
    then have p: "resolve (TrimSuffix (filepath_Join [destPath, relPath]) ''.tmpl'') = p"
      using assms(1) root rel d by (simp add: x destinationOf_def)
    from assms(2) fn True obtain rendered where r: "fst (renderTemplate E content data w) = Inr rendered"
      by (auto simp: x d split: sum.splits)
    then have b: "bytesOf E data path = Inr rendered"
      using content True by (simp add: bytesOf_def renderTemplate_result)
    have "disk (snd (ApplyModuleTemplate_fn E templatePath destPath data x w)) p = Some (File rendered)"
      using fn True r assms(2) write_in_dir_written[where dir = "filepath_Dir (TrimSuffix (filepath_Join [destPath, relPath]) ''.tmpl'')" and w = w and name = "TrimSuffix (filepath_Join [destPath, relPath]) ''.tmpl''" and data = rendered] p
      by (simp add: x d)
    then show ?thesis using b by (simp add: x)
  next
    case False
    then have p: "resolve (filepath_Join [destPath, relPath]) = p"
      using assms(1) root rel d by (simp add: x destinationOf_def)
    have b: "bytesOf E data path = Inr content"
      using content False by (simp add: bytesOf_def)
    have "disk (snd (ApplyModuleTemplate_fn E templatePath destPath data x w)) p = Some (File content)"
      using fn False assms(2) write_in_dir_written[where dir = "filepath_Dir (filepath_Join [destPath, relPath])" and w = w and name = "filepath_Join [destPath, relPath]" and data = content] p
      by (simp add: x d)
    then show ?thesis using b by (simp add: x)
  qed
qed





section \<open>Two bundles, one destination\<close>

lemma walkLoop_keeps:
  assumes "filter (\<lambda>x. map_option resolve (destinationOf templatePath destPath x) = Some p) xs = []"
    and "disk w p = Some (File c)"
  shows "disk (snd (walkLoop (ApplyModuleTemplate_fn E templatePath destPath data) xs w)) p
           = Some (File c)"
  using assms
proof (induction xs arbitrary: w)
  case Nil
  then show ?case by simp
next
  case (Cons x xs)
  let ?fn = "ApplyModuleTemplate_fn E templatePath destPath data"
  from Cons.prems(1) have x: "map_option resolve (destinationOf templatePath destPath x) \<noteq> Some p"
    and xs: "filter (\<lambda>x. map_option resolve (destinationOf templatePath destPath x) = Some p) xs = []"
    by (auto split: if_splits)
  obtain r w1 where f: "?fn x w = (r, w1)" by (cases "?fn x w")
  have k: "disk w1 p = Some (File c)"
    using ApplyModuleTemplate_fn_keeps[OF x Cons.prems(2), of E data] f by simp
  show ?case
  proof (cases r)
    case None
    then show ?thesis using f Cons.IH[OF xs k] by simp
  next
    case (Some err)
    then show ?thesis using f k by simp
  qed
qed

lemma walkLoop_last_writer:
  assumes "fst (walkLoop (ApplyModuleTemplate_fn E templatePath destPath data) xs w) = None"
    and "filter (\<lambda>x. map_option resolve (destinationOf templatePath destPath x) = Some p) xs \<noteq> []"
  shows "\<exists>b. bytesOf E data
                (fst (last (filter (\<lambda>x. map_option resolve (destinationOf templatePath destPath x)
                                         = Some p) xs))) = Inr b
             \<and> disk (snd (walkLoop (ApplyModuleTemplate_fn E templatePath destPath data) xs w)) p
                 = Some (File b)"
  using assms
proof (induction xs arbitrary: w)
  case Nil
  then show ?case by simp
next
  case (Cons x xs)
  let ?fn = "ApplyModuleTemplate_fn E templatePath destPath data"
  let ?hit = "\<lambda>x. map_option resolve (destinationOf templatePath destPath x) = Some p"
  obtain r w1 where f: "?fn x w = (r, w1)" by (cases "?fn x w")
  from Cons.prems(1) f have r: "r = None" by (cases r) simp_all
  from Cons.prems(1) f r have rest: "fst (walkLoop ?fn xs w1) = None" by simp
  have loop: "walkLoop ?fn (x # xs) w = walkLoop ?fn xs w1" using f r by simp
  show ?case
  proof (cases "filter ?hit xs = []")
    case False
    then have "last (filter ?hit (x # xs)) = last (filter ?hit xs)" by simp
    then show ?thesis using Cons.IH[OF rest False] loop by simp
  next
    case True
    with Cons.prems(2) have hit: "?hit x" by (auto split: if_splits)
    then have l: "last (filter ?hit (x # xs)) = x" using True by simp
    from f r have ok: "fst (?fn x w) = None" by simp
    from ApplyModuleTemplate_fn_writes[OF hit ok] f
    obtain b where b: "bytesOf E data (fst x) = Inr b" "disk w1 p = Some (File b)" by auto
    have "disk (snd (walkLoop ?fn xs w1)) p = Some (File b)"
      using walkLoop_keeps[OF True b(2)] .
    then show ?thesis using b(1) l loop by simp
  qed
qed

lemma ApplyModuleTemplate_last_writer:
  assumes "fst (ApplyModuleTemplate E templatePath destPath data w) = None"
    and "fs_Stat (templatesFS E) templatePath = Some root"
    and "filesFor templatePath destPath root p \<noteq> []"
  shows "\<exists>b. bytesOf E data (last (filesFor templatePath destPath root p)) = Inr b
             \<and> disk (snd (ApplyModuleTemplate E templatePath destPath data w)) p = Some (File b)"
proof -
  let ?hits = "filter (\<lambda>x. map_option resolve (destinationOf templatePath destPath x) = Some p)
                 (walk templatePath root)"
  have ne: "?hits \<noteq> []" using assms(3) by (simp add: filesFor_def)
  have l: "last (filesFor templatePath destPath root p) = fst (last ?hits)"
    using ne by (simp add: filesFor_def last_map)
  have a: "ApplyModuleTemplate E templatePath destPath data w
             = walkLoop (ApplyModuleTemplate_fn E templatePath destPath data) (walk templatePath root) w"
    using assms(2) by (simp add: ApplyModuleTemplate_def WalkDir_def)
  show ?thesis
    using walkLoop_last_writer[OF assms(1)[unfolded a] ne] unfolding a l .
qed

text \<open>
  C7. Let a bundle A and then a bundle B be applied into the same destination root, both
  without error, and let B hold a file that the applier writes to the path \<open>p\<close> of the
  destination. Then \<open>p\<close> holds exactly the bytes that the applier produces from the file
  of B written there (the last such file in the walk of B, when B holds several): the
  rendered template for a template file, the bytes of the file otherwise. The bytes are
  those of B alone, whatever A wrote at \<open>p\<close>. This holds for B applied by the applier of
  the engine and by the applier of the modules.
\<close>

theorem later_bundle_replaces_earlier:
  assumes "fst (applyTemplate E e bundleA destPath dataA w) = None"
    and "fs_Stat (templatesFS E) bundleB = Some rootB"
    and "filesFor bundleB destPath rootB p \<noteq> []"
  shows
    "(fst (ApplyModuleTemplate E bundleB destPath dataB
             (snd (applyTemplate E e bundleA destPath dataA w))) = None \<longrightarrow>
        (\<exists>b. bytesOf E dataB (last (filesFor bundleB destPath rootB p)) = Inr b
            \<and> disk (snd (ApplyModuleTemplate E bundleB destPath dataB
                           (snd (applyTemplate E e bundleA destPath dataA w)))) p = Some (File b)))
     \<and> (fst (applyTemplate E e bundleB destPath dataB
                (snd (applyTemplate E e bundleA destPath dataA w))) = None \<longrightarrow>
        (\<exists>b. bytesOf E dataB (last (filesFor bundleB destPath rootB p)) = Inr b
            \<and> disk (snd (applyTemplate E e bundleB destPath dataB
                           (snd (applyTemplate E e bundleA destPath dataA w)))) p = Some (File b)))"
  unfolding applyTemplate_eq
  using ApplyModuleTemplate_last_writer[OF _ assms(2,3)] by blast

theorem later_bundle_replaces_earlier_witness:
  "disk (snd (applyTemplate (goEnv exampleStore okCommands) NewEngine ''files/base'' ''proj''
                exampleData exampleWorld)) [''proj'', ''README.md''] = Some (File ''# proj'')
   \<and> disk (snd (ApplyModuleTemplate (goEnv exampleStore okCommands) ''files/docker'' ''proj''
                exampleData
                (snd (applyTemplate (goEnv exampleStore okCommands) NewEngine ''files/base''
                        ''proj'' exampleData exampleWorld)))) [''proj'', ''README.md'']
       = Some (File ''docker'')"
proof -
  let ?E = "goEnv exampleStore okCommands"
  let ?rootB = "EDir [(''Dockerfile'', EFile ''FROM scratch''), (''README.md'', EFile ''docker'')]"
  let ?w1 = "snd (applyTemplate ?E NewEngine ''files/base'' ''proj'' exampleData exampleWorld)"
  have a: "fst (applyTemplate ?E NewEngine ''files/base'' ''proj'' exampleData exampleWorld) = None"
    by code_simp
  have s: "fs_Stat (templatesFS ?E) ''files/docker'' = Some ?rootB" by code_simp
  have f: "filesFor ''files/docker'' ''proj'' ?rootB [''proj'', ''README.md'']
             = [''files/docker/README.md'']" by code_simp
  then have ne: "filesFor ''files/docker'' ''proj'' ?rootB [''proj'', ''README.md''] \<noteq> []" by simp
  have b: "fst (ApplyModuleTemplate ?E ''files/docker'' ''proj'' exampleData ?w1) = None"
    by code_simp
  have bytes: "bytesOf ?E exampleData ''files/docker/README.md'' = Inr ''docker''" by code_simp
  have before: "disk ?w1 [''proj'', ''README.md''] = Some (File ''# proj'')" by code_simp
  from later_bundle_replaces_earlier[OF a s ne, where dataB = exampleData] b
  obtain c where "bytesOf ?E exampleData (last (filesFor ''files/docker'' ''proj'' ?rootB
                                                  [''proj'', ''README.md''])) = Inr c"
    and "disk (snd (ApplyModuleTemplate ?E ''files/docker'' ''proj'' exampleData ?w1))
           [''proj'', ''README.md''] = Some (File c)"
    by blast
  then have "disk (snd (ApplyModuleTemplate ?E ''files/docker'' ''proj'' exampleData ?w1))
               [''proj'', ''README.md''] = Some (File ''docker'')"
    using bytes by (simp add: f)
  then show ?thesis using before by simp
qed

section \<open>The destination directory\<close>

lemma mkdirs_only_prefixes:
  "\<not> (length q \<le> length (pre @ cs) \<and> take (length q) (pre @ cs) = q) \<Longrightarrow>
     snd (mkdirs name pre cs fs) q = fs q"
proof (induction cs arbitrary: pre fs)
  case Nil
  then show ?case by simp
next
  case (Cons c cs)
  have ne: "q \<noteq> pre @ [c]"
  proof
    assume "q = pre @ [c]"
    then have "length q \<le> length (pre @ c # cs) \<and> take (length q) (pre @ c # cs) = q" by simp
    with Cons.prems show False by simp
  qed
  have p: "\<not> (length q \<le> length ((pre @ [c]) @ cs) \<and> take (length q) ((pre @ [c]) @ cs) = q)"
    using Cons.prems by simp
  show ?case
  proof (cases "fs (pre @ [c])")
    case None
    have "snd (mkdirs name (pre @ [c]) cs (fs(pre @ [c] \<mapsto> Dir))) q = (fs(pre @ [c] \<mapsto> Dir)) q"
      by (rule Cons.IH[OF p])
    also have "\<dots> = fs q" using ne by simp
    finally show ?thesis using None by simp
  next
    case (Some a)
    then show ?thesis using Cons.IH[OF p, of fs] by (cases a) simp_all
  qed
qed

lemma strict_extension_no_prefix:
  assumes "take (length P) q = P" and "q \<noteq> P"
  shows "\<not> (length q \<le> length P \<and> take (length q) P = q)"
proof
  assume a: "length q \<le> length P \<and> take (length q) P = q"
  have "length (take (length P) q) = length P"
    by (subst assms(1)) (rule refl)
  then have "length P \<le> length q" by simp
  with a have l: "length q = length P" by linarith
  from a have "take (length q) P = q" by (rule conjunct2)
  then have "take (length P) P = q" unfolding l .
  then have "P = q" by (simp only: take_all[OF order_refl])
  with assms(2) show False by (elim notE) (rule sym)
qed

lemma os_MkdirAll_below:
  assumes "take (length (resolve path)) q = resolve path" and "q \<noteq> resolve path"
  shows "disk (snd (os_MkdirAll path w)) q = disk w q"
proof -
  have "\<not> (length q \<le> length ([] @ resolve path) \<and> take (length q) ([] @ resolve path) = q)"
    using strict_extension_no_prefix[OF assms] by simp
  from mkdirs_only_prefixes[OF this, of path "disk w"] show ?thesis
    by (auto simp: os_MkdirAll_def split: option.splits node.splits prod.splits)
qed

lemma os_MkdirAll_existing:
  "path \<noteq> [] \<Longrightarrow> disk w (resolve path) = Some Dir \<Longrightarrow> os_MkdirAll path w = (None, w)"
  by (simp add: os_MkdirAll_def)

lemma InitProject_directory_keeps:
  assumes "\<not> Force opts" and "disk w q = Some n"
  shows "disk (snd (InitProject_directory projectPath opts w)) q = Some n"
proof -
  obtain r w1 where m: "os_MkdirAll projectPath w = (r, w1)" by (cases "os_MkdirAll projectPath w")
  have "disk w1 q = Some n" using os_MkdirAll_keeps[OF assms(2), of projectPath] m by simp
  then show ?thesis using assms(1) m by (cases r) (simp_all add: InitProject_directory_def)
qed

lemma InitProject_directory_cleans:
  assumes "Force opts" and "fst (InitProject_directory projectPath opts w) = None"
    and "take (length (resolve projectPath)) q = resolve projectPath" and "q \<noteq> resolve projectPath"
  shows "disk (snd (InitProject_directory projectPath opts w)) q = None"
proof -
  obtain r w1 where rm: "os_RemoveAll projectPath w = (r, w1)" by (cases "os_RemoveAll projectPath w")
  from assms(1,2) rm have r: "r = None"
    by (cases r) (simp_all add: InitProject_directory_def)
  have ne: "projectPath \<noteq> []"
  proof
    assume "projectPath = []"
    then show False using assms(1,2) by (simp add: InitProject_directory_def os_RemoveAll_def os_MkdirAll_def)
  qed
  from rm r ne have w1: "disk w1 q = None"
    using assms(3) by (auto simp: os_RemoveAll_def split: if_splits)
  obtain r2 w2 where m: "os_MkdirAll projectPath w1 = (r2, w2)" by (cases "os_MkdirAll projectPath w1")
  have "disk w2 q = None" using os_MkdirAll_below[OF assms(3,4), of w1] m w1 by simp
  then show ?thesis using assms(1) rm r m by (cases r2) (simp_all add: InitProject_directory_def)
qed

text \<open>
  C1, as the code has it. \<open>InitProject\<close> has no check of the destination. With Force
  false, preparing the directory removes nothing and rejects nothing: every file and
  directory that exists is kept, and when the destination is an existing directory, empty
  or not, \<open>InitProject\<close> goes on to apply the base overlay and the modules in the world as
  it is. With Force true, when the directory is prepared without error, nothing is left
  below the destination before the overlays are applied: it is removed recursively and
  created again. The rejection of an existing destination is made by the init command
  before it calls \<open>InitProject\<close>: when the path exists (empty or not) and the force flag is
  not set, the command returns the error and the world is untouched.
\<close>

theorem InitProject_destination:
  assumes "validateInitOptions e opts = None"
  shows
    "(\<not> Force opts \<longrightarrow>
        (\<forall>q n. disk w q = Some n \<longrightarrow>
           disk (snd (InitProject_directory projectPath opts w)) q = Some n))
     \<and> (\<not> Force opts \<and> projectPath \<noteq> [] \<and> disk w (resolve projectPath) = Some Dir \<longrightarrow>
          InitProject E e projectPath opts w = InitProject_generate E e projectPath opts w)
     \<and> (Force opts \<and> fst (InitProject_directory projectPath opts w) = None \<longrightarrow>
          InitProject E e projectPath opts w
            = InitProject_generate E e projectPath opts
                (snd (InitProject_directory projectPath opts w))
          \<and> (\<forall>q. take (length (resolve projectPath)) q = resolve projectPath
                   \<and> q \<noteq> resolve projectPath \<longrightarrow>
                 disk (snd (InitProject_directory projectPath opts w)) q = None))
     \<and> (modulePath flags \<noteq> [] \<and> \<not> (openapi flags = ''gen'' \<and> specPath flags = [])
          \<and> \<not> force flags \<and> os_Stat_ok (filepath_Join [''.'', projectName]) w \<longrightarrow>
          initCmd_RunE E flags projectName w
            = (Some (Errorf (''directory '' @ projectName
                             @ '' already exists (use --force to overwrite)'')), w))"
proof -
  have a: "\<not> Force opts \<and> projectPath \<noteq> [] \<and> disk w (resolve projectPath) = Some Dir \<longrightarrow>
          InitProject E e projectPath opts w = InitProject_generate E e projectPath opts w"
    using assms by (simp add: InitProject_def InitProject_directory_def os_MkdirAll_existing)
  have b: "Force opts \<and> fst (InitProject_directory projectPath opts w) = None \<longrightarrow>
          InitProject E e projectPath opts w
            = InitProject_generate E e projectPath opts
                (snd (InitProject_directory projectPath opts w))"
    using assms by (auto simp: InitProject_def split: prod.splits)
  have c: "modulePath flags \<noteq> [] \<and> \<not> (openapi flags = ''gen'' \<and> specPath flags = [])
          \<and> \<not> force flags \<and> os_Stat_ok (filepath_Join [''.'', projectName]) w \<longrightarrow>
          initCmd_RunE E flags projectName w
            = (Some (Errorf (''directory '' @ projectName
                             @ '' already exists (use --force to overwrite)'')), w)"
    by (auto simp: initCmd_RunE_def Let_def)
  have k: "\<not> Force opts \<longrightarrow>
        (\<forall>q n. disk w q = Some n \<longrightarrow>
           disk (snd (InitProject_directory projectPath opts w)) q = Some n)"
    using InitProject_directory_keeps by blast
  have cl: "Force opts \<and> fst (InitProject_directory projectPath opts w) = None \<longrightarrow>
          (\<forall>q. take (length (resolve projectPath)) q = resolve projectPath
                   \<and> q \<noteq> resolve projectPath \<longrightarrow>
                 disk (snd (InitProject_directory projectPath opts w)) q = None)"
    using InitProject_directory_cleans by blast
  have bc: "Force opts \<and> fst (InitProject_directory projectPath opts w) = None \<longrightarrow>
          InitProject E e projectPath opts w
            = InitProject_generate E e projectPath opts
                (snd (InitProject_directory projectPath opts w))
          \<and> (\<forall>q. take (length (resolve projectPath)) q = resolve projectPath
                   \<and> q \<noteq> resolve projectPath \<longrightarrow>
                 disk (snd (InitProject_directory projectPath opts w)) q = None)"
    using b cl by (intro impI conjI) (erule (1) mp)+
  show ?thesis
    by (rule conjI[OF k conjI[OF a conjI[OF bc c]]])
qed

theorem InitProject_destination_witness:
  "disk (snd (InitProject_directory ''proj'' exampleOptions exampleWorld)) [''proj'', ''old.txt'']
     = Some (File ''keep'')
   \<and> InitProject (goEnv exampleStore okCommands) NewEngine ''proj'' exampleOptions exampleWorld
       = InitProject_generate (goEnv exampleStore okCommands) NewEngine ''proj'' exampleOptions
           exampleWorld
   \<and> disk (snd (InitProject_directory ''proj'' (exampleOptions\<lparr>Force := True\<rparr>) exampleWorld))
        [''proj'', ''old.txt''] = None
   \<and> initCmd_RunE (goEnv exampleStore okCommands) exampleFlags ''proj'' exampleWorld
       = (Some (Errorf ''directory proj already exists (use --force to overwrite)''), exampleWorld)"
proof -
  let ?E = "goEnv exampleStore okCommands"
  have v: "validateInitOptions NewEngine (exampleOptions\<lparr>Force := True\<rparr>) = None"
    by (simp add: validateInitOptions_def exampleOptions_def Let_def index_upd index_empty)
  have old: "disk exampleWorld [''proj'', ''old.txt''] = Some (File ''keep'')" by code_simp
  have dir: "disk exampleWorld (resolve ''proj'') = Some Dir" by code_simp
  have nf: "\<not> Force exampleOptions" by (simp add: exampleOptions_def)
  have f: "Force (exampleOptions\<lparr>Force := True\<rparr>)" by simp
  have ok: "fst (InitProject_directory ''proj'' (exampleOptions\<lparr>Force := True\<rparr>) exampleWorld) = None"
    by code_simp
  have below: "take (length (resolve ''proj'')) [''proj'', ''old.txt''] = resolve ''proj''
               \<and> [''proj'', ''old.txt''] \<noteq> resolve ''proj''" by code_simp
  have flags: "modulePath exampleFlags \<noteq> [] \<and> \<not> (openapi exampleFlags = ''gen'' \<and> specPath exampleFlags = [])
               \<and> \<not> force exampleFlags" by (simp add: exampleFlags_def)
  have st: "os_Stat_ok (filepath_Join [''.'', ''proj'']) exampleWorld" by code_simp
  note t1 = InitProject_destination[OF example_validate, where w = exampleWorld
              and projectPath = "''proj''" and E = ?E and flags = exampleFlags
              and projectName = "''proj''"]
  note t2 = InitProject_destination[OF v, where w = exampleWorld and projectPath = "''proj''"
              and E = ?E and flags = exampleFlags and projectName = "''proj''"]
  have a: "disk (snd (InitProject_directory ''proj'' exampleOptions exampleWorld))
             [''proj'', ''old.txt''] = Some (File ''keep'')"
    using t1 nf old by blast
  have b: "InitProject ?E NewEngine ''proj'' exampleOptions exampleWorld
             = InitProject_generate ?E NewEngine ''proj'' exampleOptions exampleWorld"
    using t1 nf dir by simp
  have c: "disk (snd (InitProject_directory ''proj'' (exampleOptions\<lparr>Force := True\<rparr>) exampleWorld))
             [''proj'', ''old.txt''] = None"
    using t2 f ok below by blast
  have d: "initCmd_RunE ?E exampleFlags ''proj'' exampleWorld
             = (Some (Errorf (''directory '' @ ''proj''
                              @ '' already exists (use --force to overwrite)'')), exampleWorld)"
    using t1 flags st by blast
  show ?thesis using a b c d by simp
qed

text \<open>
  The claim C1 as stated fails: the destination \<open>proj\<close> exists and holds a file, Force is
  false, and \<open>InitProject\<close> returns no error and has written the file of the base bundle
  into the destination.
\<close>

theorem InitProject_destination_counterexample:
  "\<not> Force exampleOptions
   \<and> disk exampleWorld [''proj''] = Some Dir
   \<and> disk exampleWorld [''proj'', ''old.txt''] = Some (File ''keep'')
   \<and> disk exampleWorld [''proj'', ''README.md''] = None
   \<and> fst (InitProject (goEnv exampleStore okCommands) NewEngine ''proj'' exampleOptions
             exampleWorld) = None
   \<and> disk (snd (InitProject (goEnv exampleStore okCommands) NewEngine ''proj'' exampleOptions
                   exampleWorld)) [''proj'', ''README.md''] = Some (File ''# proj'')
   \<and> disk (snd (InitProject (goEnv exampleStore okCommands) NewEngine ''proj'' exampleOptions
                   exampleWorld)) [''proj'', ''old.txt''] = Some (File ''keep'')"
  by code_simp

end
